theory Spec2Isabelle
  imports Complex_Main
begin

section \<open>Values of the JavaScript program\<close>

text \<open>
  The scoring code of \<^verbatim>\<open>assets/js/atcf-calculator.js\<close> and
  \<^verbatim>\<open>assets/js/coordination.js\<close> is embedded function by function.

  \<^item> A JavaScript number is a real number: the rounding of IEEE doubles is not
    modelled, so a score of the model and the score of the source may differ by rounding
    errors, and a test for equality with zero is decided on the exact value.
  \<^item> Where the source leaves the finite numbers, the model follows it as far as the
    statements below need. In \<^verbatim>\<open>calculateHistoricalContinuity\<close> the underflow and the
    overflow of \<^verbatim>\<open>Math.exp\<close> and the infinite and undefined values computed from them are
    modelled by the type \<open>number\<close>. The unguarded division of \<^verbatim>\<open>adaptForCulture\<close> and
    arithmetic on \<^verbatim>\<open>undefined\<close> give \<^verbatim>\<open>NaN\<close> or an infinity, which is \<open>None\<close>. A call
    that goes on with such a value ends in \<open>Inr None\<close> or in the outcome \<open>NonFinite\<close>:
    the source returns a result some of whose scores are not finite numbers, and the model
    says nothing more about it. Elsewhere the underflow and the overflow of sums and
    products are not modelled; the statements that depend on them bound the sizes of their
    inputs.
  \<^item> A thrown exception is a value of type \<open>error\<close>.
  \<^item> A plain object used as a dictionary is an association list in property order; a
    property that may be missing is an \<open>option\<close>. The lookup of \<^verbatim>\<open>adaptForCulture\<close> also
    sees the names that every object inherits from \<^verbatim>\<open>Object.prototype\<close>. All other
    lookups (the timeline table, the compatibility tables, the belief objects) are modelled
    for the listed properties only: a key that is such an inherited name is outside the
    model.
  \<^item> A string is a list of ASCII characters.
  \<^item> Properties that the source reads without any guard are mandatory record fields.
  \<^item> The clock reading \<^verbatim>\<open>Date.now()\<close>, the default of \<^verbatim>\<open>timeWindow.current\<close>, is
    an explicit parameter.
\<close>

datatype error = TypeError | Error string

datatype ('a, 's) outcome = Returned 'a 's | Thrown error 's | NonFinite

type_synonym 'v object = "(string \<times> 'v) list"

definition Object_keys :: "'v object \<Rightarrow> string list" where
  "Object_keys obj = map fst obj"

definition Object_values :: "'v object \<Rightarrow> 'v list" where
  "Object_values obj = map snd obj"

text \<open>\<^verbatim>\<open>obj[key]\<close>: \<open>None\<close> is \<^verbatim>\<open>undefined\<close>.\<close>

definition get :: "'v object \<Rightarrow> string \<Rightarrow> 'v option" where
  "get obj key = map_of obj key"

text \<open>A property key that is \<^verbatim>\<open>undefined\<close> is converted to the string \<^verbatim>\<open>"undefined"\<close>.\<close>

definition property_key :: "string option \<Rightarrow> string" where
  "property_key k = (case k of None \<Rightarrow> ''undefined'' | Some s \<Rightarrow> s)"

text \<open>\<^verbatim>\<open>x || d\<close> on a number that may be \<^verbatim>\<open>undefined\<close>: \<^verbatim>\<open>undefined\<close> and \<^verbatim>\<open>0\<close> are falsy.\<close>

fun or_else :: "real option \<Rightarrow> real \<Rightarrow> real" where
  "or_else None d = d"
| "or_else (Some v) d = (if v = 0 then d else v)"

text \<open>Truthiness of a string that may be \<^verbatim>\<open>undefined\<close>: the empty string is falsy.\<close>

fun truthy :: "string option \<Rightarrow> bool" where
  "truthy None = False"
| "truthy (Some s) = (s \<noteq> [])"

text \<open>\<^verbatim>\<open>arr.reduce(f)\<close> with no initial value throws on the empty array.\<close>

fun reduce :: "('a \<Rightarrow> 'a \<Rightarrow> 'a) \<Rightarrow> 'a list \<Rightarrow> error + 'a" where
  "reduce f [] = Inl TypeError"
| "reduce f (x # xs) = Inr (foldl f x xs)"

text \<open>
  A double that may be infinite or not a number. A sum, product or quotient of finite
  numbers that reaches the rounding bound of the largest double is infinite. Zero has no
  sign here, and a product or quotient other than zero does not underflow to zero.
\<close>

datatype number = Finite real | PosInfinity | NegInfinity | NaN

definition overflow_bound :: real where
  "overflow_bound = 2 ^ 1024 - 2 ^ 970"

definition number_of :: "real \<Rightarrow> number" where
  "number_of x =
     (if x \<ge> overflow_bound then PosInfinity
      else if x \<le> - overflow_bound then NegInfinity
      else Finite x)"

fun number_plus :: "number \<Rightarrow> number \<Rightarrow> number" where
  "number_plus (Finite a) (Finite b) = number_of (a + b)"
| "number_plus NaN y = NaN"
| "number_plus x NaN = NaN"
| "number_plus PosInfinity NegInfinity = NaN"
| "number_plus NegInfinity PosInfinity = NaN"
| "number_plus PosInfinity y = PosInfinity"
| "number_plus x PosInfinity = PosInfinity"
| "number_plus NegInfinity y = NegInfinity"
| "number_plus x NegInfinity = NegInfinity"

fun signed_infinity :: "bool \<Rightarrow> number" where
  "signed_infinity True = PosInfinity"
| "signed_infinity False = NegInfinity"

fun number_times :: "number \<Rightarrow> number \<Rightarrow> number" where
  "number_times (Finite a) (Finite b) = number_of (a * b)"
| "number_times NaN y = NaN"
| "number_times x NaN = NaN"
| "number_times (Finite a) PosInfinity = (if a = 0 then NaN else signed_infinity (a > 0))"
| "number_times (Finite a) NegInfinity = (if a = 0 then NaN else signed_infinity (a < 0))"
| "number_times PosInfinity (Finite b) = (if b = 0 then NaN else signed_infinity (b > 0))"
| "number_times NegInfinity (Finite b) = (if b = 0 then NaN else signed_infinity (b < 0))"
| "number_times PosInfinity PosInfinity = PosInfinity"
| "number_times PosInfinity NegInfinity = NegInfinity"
| "number_times NegInfinity PosInfinity = NegInfinity"
| "number_times NegInfinity NegInfinity = PosInfinity"

fun number_divide :: "number \<Rightarrow> number \<Rightarrow> number" where
  "number_divide (Finite a) (Finite b) =
     (if b = 0 then (if a = 0 then NaN else signed_infinity (a > 0)) else number_of (a / b))"
| "number_divide NaN y = NaN"
| "number_divide x NaN = NaN"
| "number_divide (Finite a) PosInfinity = Finite 0"
| "number_divide (Finite a) NegInfinity = Finite 0"
| "number_divide PosInfinity (Finite b) = signed_infinity (b \<ge> 0)"
| "number_divide NegInfinity (Finite b) = signed_infinity (b < 0)"
| "number_divide x y = NaN"

text \<open>\<^verbatim>\<open>x > c\<close>: every comparison with \<^verbatim>\<open>NaN\<close> is false.\<close>

fun number_greater :: "number \<Rightarrow> real \<Rightarrow> bool" where
  "number_greater (Finite a) c = (a > c)"
| "number_greater PosInfinity c = True"
| "number_greater NegInfinity c = False"
| "number_greater NaN c = False"

text \<open>
  \<^verbatim>\<open>Math.exp\<close>: beyond the thresholds of the usual implementation (fdlibm, which the
  common engines use) the result is \<^verbatim>\<open>Infinity\<close> or \<^verbatim>\<open>0\<close>.
\<close>

definition Math_exp :: "real \<Rightarrow> number" where
  "Math_exp x =
     (if x > 709.782712893384 then PosInfinity
      else if x < - 745.1332191019411 then Finite 0
      else Finite (exp x))"

text \<open>\<^verbatim>\<open>new Set(xs)\<close>: the distinct elements in order of first insertion; \<^verbatim>\<open>.size\<close> is the length.\<close>

fun Set_new :: "'a list \<Rightarrow> 'a list" where
  "Set_new [] = []"
| "Set_new (x # xs) = x # removeAll x (Set_new xs)"

text \<open>\<^verbatim>\<open>toLowerCase\<close>, on ASCII letters.\<close>

definition toLowerCase_char :: "char \<Rightarrow> char" where
  "toLowerCase_char c =
     (case map_of (zip ''ABCDEFGHIJKLMNOPQRSTUVWXYZ'' ''abcdefghijklmnopqrstuvwxyz'') c of
        None \<Rightarrow> c
      | Some l \<Rightarrow> l)"

definition toLowerCase :: "string \<Rightarrow> string" where
  "toLowerCase s = map toLowerCase_char s"

fun startsWith :: "string \<Rightarrow> string \<Rightarrow> bool" where
  "startsWith s [] = True"
| "startsWith [] (c # cs) = False"
| "startsWith (d # ds) (c # cs) = (d = c \<and> startsWith ds cs)"

text \<open>\<^verbatim>\<open>s.includes(t)\<close>: \<open>t\<close> occurs in \<open>s\<close> as a contiguous substring.\<close>

fun includes_str :: "string \<Rightarrow> string \<Rightarrow> bool" where
  "includes_str [] t = (t = [])"
| "includes_str (d # ds) t = (startsWith (d # ds) t \<or> includes_str ds t)"

text \<open>\<^verbatim>\<open>s.split('_')[0]\<close>: the text before the first underscore.\<close>

definition split_first :: "string \<Rightarrow> string" where
  "split_first s = takeWhile (\<lambda>c. c \<noteq> CHR ''_'') s"

section \<open>Data model\<close>

record snapshot =
  timestamp :: real
  snapshot_identity_kernel :: "string list option"

record uev =
  global_feeling_tone :: "real object"
  emotional_motivation :: "real object"
  rational_deliberation :: "real object"
  action_readiness :: "real object"

record authenticity_rec =
  auth_identity_kernel :: "string list option"
  value_alignment :: "real option"
  self_consistency :: real

record broa =
  beliefs :: "real object option"
  rules :: "string object option"
  ontology :: "string object option"
  authenticity :: "authenticity_rec option"

record projections =
  goals :: "string list option"
  timeline :: string
  alignment_with_identity :: "real option"

record self_modification =
  modification_history :: "string list option"
  coherence_maintenance_capacity :: "real option"

text \<open>
  The fields \<open>snapshot_identity_kernel\<close> and \<open>auth_identity_kernel\<close> are the source's
  \<^verbatim>\<open>identity_kernel\<close> of a history point and of \<^verbatim>\<open>broa_data.authenticity\<close>;
  \<open>identity_kernel\<close> is the one of the agent itself.
\<close>

record agent =
  cultural_background :: "string option"
  identity_history :: "snapshot list option"
  identity_kernel :: "string list option"
  uev_data :: uev
  broa_data :: broa
  future_projections :: projections
  self_modification_data :: self_modification
  capabilities :: "string list option"

record weight_set =
  alpha :: real
  beta :: real
  gamma :: real
  delta :: real

record calculator =
  weights :: weight_set

text \<open>
  \<^verbatim>\<open>this.temporalDecayConstant\<close> is assigned once, in the constructor, and nowhere else.
\<close>

definition temporalDecayConstant :: real where
  "temporalDecayConstant = 30"

record interpretation_rec =
  level :: string
  description :: string
  recommendation :: string

record component_scores =
  HC :: real
  PI :: real
  PC :: real
  MCC :: real

record cultural_adaptation_rec =
  original_weights :: weight_set
  adapted_weights :: weight_set
  cultural_context :: "string option"

record atcf_result =
  total_score :: real
  components :: component_scores
  weights :: weight_set
  assessment_timestamp :: real
  score_interpretation :: interpretation_rec
  cultural_adaptation :: "cultural_adaptation_rec option"

text \<open>One entry of \<^verbatim>\<open>window.FrameworkData.culturalFrameworks\<close>.\<close>

record cultural_framework =
  atcf_modifiers :: weight_set

type_synonym cultural_frameworks = "string \<Rightarrow> cultural_framework option"

section \<open>ATCFCalculator\<close>

definition Object_values_weights :: "weight_set \<Rightarrow> real list" where
  "Object_values_weights w = [alpha w, beta w, gamma w, delta w]"

definition validateWeights :: "calculator \<Rightarrow> error + unit" where
  "validateWeights c =
     (let sum = foldl (\<lambda>a b. a + b) 0 (Object_values_weights (calculator.weights c))
      in if \<bar>sum - 1.0\<bar> > 0.001 then Inl (Error ''ATCF weights must sum to 1.0'')
         else Inr ())"

definition default_weights :: weight_set where
  "default_weights = \<lparr>alpha = 0.25, beta = 0.25, gamma = 0.25, delta = 0.25\<rparr>"

definition ATCFCalculator_new :: "weight_set \<Rightarrow> error + calculator" where
  "ATCFCalculator_new w =
     (let this = \<lparr>calculator.weights = w\<rparr>
      in case validateWeights this of Inl e \<Rightarrow> Inl e | Inr _ \<Rightarrow> Inr this)"

definition calculateIdentitySimilarity :: "string list option \<Rightarrow> string list option \<Rightarrow> real" where
  "calculateIdentitySimilarity kernel1 kernel2 =
     (case kernel1 of
        None \<Rightarrow> 0
      | Some k1 \<Rightarrow>
          (case kernel2 of
             None \<Rightarrow> 0
           | Some k2 \<Rightarrow>
               if length k1 = 0 \<or> length k2 = 0 then 0
               else
                 let set1 = Set_new k1;
                     set2 = Set_new k2;
                     intersection = Set_new (filter (\<lambda>x. x \<in> set set2) set1);
                     union = Set_new (set1 @ set2)
                 in real (length intersection) / real (length union)))"

fun historyLoop ::
  "string list option \<Rightarrow> real \<Rightarrow> snapshot list \<Rightarrow> number \<times> number \<Rightarrow> number \<times> number" where
  "historyLoop kernel0 currentTime [] (totalScore, totalWeight) = (totalScore, totalWeight)"
| "historyLoop kernel0 currentTime (historyPoint # rest) (totalScore, totalWeight) =
     (let timeDiff = (currentTime - timestamp historyPoint) / (1000 * 60 * 60 * 24);
          temporalWeight = Math_exp (- timeDiff / temporalDecayConstant);
          identityPreservation =
            calculateIdentitySimilarity kernel0 (snapshot_identity_kernel historyPoint)
      in historyLoop kernel0 currentTime rest
           (number_plus totalScore (number_times temporalWeight (Finite identityPreservation)),
            number_plus totalWeight temporalWeight))"

definition calculateHistoricalContinuity :: "snapshot list option \<Rightarrow> real \<Rightarrow> number" where
  "calculateHistoricalContinuity identityHistory currentTime =
     (case identityHistory of
        None \<Rightarrow> Finite 0
      | Some [] \<Rightarrow> Finite 0
      | Some (first # rest) \<Rightarrow>
          (case historyLoop (snapshot_identity_kernel first) currentTime (first # rest)
                  (Finite 0, Finite 0) of
             (totalScore, totalWeight) \<Rightarrow>
               if number_greater totalWeight 0 then number_divide totalScore totalWeight
               else Finite 0))"

fun correlationLoop ::
  "real \<Rightarrow> real \<Rightarrow> real list \<Rightarrow> real list \<Rightarrow> real \<times> real \<times> real \<Rightarrow> real \<times> real \<times> real" where
  "correlationLoop mean1 mean2 (x # xs) (y # ys) (numerator, sumSq1, sumSq2) =
     (let diff1 = x - mean1;
          diff2 = y - mean2
      in correlationLoop mean1 mean2 xs ys
           (numerator + diff1 * diff2, sumSq1 + diff1 * diff1, sumSq2 + diff2 * diff2))"
| "correlationLoop mean1 mean2 xs ys acc = acc"

text \<open>
  The test \<^verbatim>\<open>denominator === 0\<close> is decided on the exact value. For a constant vector of
  one or two values the mean is the value itself on doubles too. For a constant vector of
  three or more values the rounded mean can differ from the value: the denominator computed
  from two such vectors is then not zero and the source returns the quotient. The
  statement on the present-integration score leaves such data out.
\<close>

definition calculateCorrelation :: "real list \<Rightarrow> real list \<Rightarrow> error + real" where
  "calculateCorrelation arr1 arr2 =
     (if length arr1 \<noteq> length arr2 \<or> length arr1 = 0 then Inr 0
      else
        case reduce (\<lambda>a b. a + b) arr1 of
          Inl e \<Rightarrow> Inl e
        | Inr s1 \<Rightarrow>
            (case reduce (\<lambda>a b. a + b) arr2 of
               Inl e \<Rightarrow> Inl e
             | Inr s2 \<Rightarrow>
                 let mean1 = s1 / real (length arr1);
                     mean2 = s2 / real (length arr2)
                 in case correlationLoop mean1 mean2 arr1 arr2 (0, 0, 0) of
                      (numerator, sumSq1, sumSq2) \<Rightarrow>
                        let denominator = sqrt (sumSq1 * sumSq2)
                        in Inr (if denominator = 0 then 0 else numerator / denominator)))"

text \<open>The inner loop over \<open>j > i\<close> and the outer loop over \<open>i\<close>.\<close>

fun compatibilityInner ::
  "real object \<Rightarrow> real object list \<Rightarrow> real \<times> nat \<Rightarrow> error + real \<times> nat" where
  "compatibilityInner ci [] acc = Inr acc"
| "compatibilityInner ci (cj # rest) (totalCompatibility, comparisons) =
     (case calculateCorrelation (Object_values ci) (Object_values cj) of
        Inl e \<Rightarrow> Inl e
      | Inr correlation \<Rightarrow>
          compatibilityInner ci rest (totalCompatibility + \<bar>correlation\<bar>, comparisons + 1))"

fun compatibilityOuter :: "real object list \<Rightarrow> real \<times> nat \<Rightarrow> error + real \<times> nat" where
  "compatibilityOuter [] acc = Inr acc"
| "compatibilityOuter (ci # rest) acc =
     (case compatibilityInner ci rest acc of
        Inl e \<Rightarrow> Inl e
      | Inr acc' \<Rightarrow> compatibilityOuter rest acc')"

definition checkComponentCompatibility :: "real object list \<Rightarrow> error + real" where
  "checkComponentCompatibility comps =
     (case compatibilityOuter comps (0, 0) of
        Inl e \<Rightarrow> Inl e
      | Inr (totalCompatibility, comparisons) \<Rightarrow>
          Inr (if comparisons > 0 then totalCompatibility / real comparisons else 0.5))"

definition Object_values_uev :: "uev \<Rightarrow> real object list" where
  "Object_values_uev u =
     [global_feeling_tone u, emotional_motivation u, rational_deliberation u, action_readiness u]"

definition checkTemporalContinuity :: "uev \<Rightarrow> error + real" where
  "checkTemporalContinuity uevData =
     (let allValues = concat (map Object_values (Object_values_uev uevData))
      in case reduce (\<lambda>a b. a + b) allValues of
           Inl e \<Rightarrow> Inl e
         | Inr s \<Rightarrow>
             let mean = s / real (length allValues);
                 variance =
                   foldl (\<lambda>sum val. sum + (val - mean) ^ 2) 0 allValues / real (length allValues)
             in Inr (max 0 (1 - variance)))"

definition calculateTCF :: "uev \<Rightarrow> error + real" where
  "calculateTCF uevData =
     (let comps =
            [global_feeling_tone uevData, emotional_motivation uevData,
             rational_deliberation uevData, action_readiness uevData]
      in case checkComponentCompatibility comps of
           Inl e \<Rightarrow> Inl e
         | Inr compatibilityScore \<Rightarrow>
             (case checkTemporalContinuity uevData of
                Inl e \<Rightarrow> Inl e
              | Inr temporalContinuity \<Rightarrow>
                  Inr (0.7 * compatibilityScore + 0.3 * temporalContinuity)))"

definition calculateBeliefConsistency :: "real object option \<Rightarrow> error + real" where
  "calculateBeliefConsistency bs =
     (case bs of
        None \<Rightarrow> Inr 0.5
      | Some b \<Rightarrow>
          (let values = Object_values b
           in (case reduce (\<lambda>a b. a + b) values of
                 Inl e \<Rightarrow> Inl e
               | Inr s \<Rightarrow>
                   let mean = s / real (length values);
                       variance =
                         foldl (\<lambda>sum val. sum + (val - mean) ^ 2) 0 values
                         / real (length values);
                       optimalVariance = 0.1;
                       varianceScore = 1 - \<bar>variance - optimalVariance\<bar>
                   in Inr (max 0 (min 1 varianceScore)))))"

definition calculateRuleCoherence :: "string object option \<Rightarrow> real" where
  "calculateRuleCoherence rs =
     (case rs of
        None \<Rightarrow> 0.5
      | Some r \<Rightarrow> let ruleCount = length (Object_keys r) in min 1 (real ruleCount / 5))"

definition calculateOntologyAlignment :: "string object option \<Rightarrow> real" where
  "calculateOntologyAlignment ont =
     (case ont of
        None \<Rightarrow> 0.5
      | Some ob \<Rightarrow>
          let expectedCategories = [''agency_conception'', ''time_orientation'', ''relationship_model''];
              presentCategories = filter (\<lambda>cat. truthy (get ob cat)) expectedCategories
          in real (length presentCategories) / real (length expectedCategories))"

definition calculateInternalCoherence :: "broa \<Rightarrow> error + real" where
  "calculateInternalCoherence broaData =
     (case calculateBeliefConsistency (beliefs broaData) of
        Inl e \<Rightarrow> Inl e
      | Inr beliefConsistency \<Rightarrow>
          (let ruleCoherence = calculateRuleCoherence (rules broaData);
               ontologyAlignment = calculateOntologyAlignment (ontology broaData)
           in (case authenticity broaData of
                 None \<Rightarrow> Inl TypeError
               | Some auth \<Rightarrow>
                   let authenticityAlignment = or_else (value_alignment auth) 0.75
                   in Inr ((beliefConsistency + ruleCoherence + ontologyAlignment
                            + authenticityAlignment) / 4))))"

definition calculatePresentIntegration :: "uev \<Rightarrow> broa \<Rightarrow> error + real" where
  "calculatePresentIntegration uevData broaData =
     (case calculateTCF uevData of
        Inl e \<Rightarrow> Inl e
      | Inr tcfScore \<Rightarrow>
          (case calculateInternalCoherence broaData of
             Inl e \<Rightarrow> Inl e
           | Inr internalCoherence \<Rightarrow> Inr (0.6 * tcfScore + 0.4 * internalCoherence)))"

definition calculateProjectionAlignment :: "projections \<Rightarrow> string list option \<Rightarrow> real" where
  "calculateProjectionAlignment proj identityKernel =
     (case goals proj of
        None \<Rightarrow> 0.5
      | Some gs \<Rightarrow>
          (case identityKernel of
             None \<Rightarrow> 0.5
           | Some kern \<Rightarrow>
               let goalKernelOverlap =
                     length (filter (\<lambda>goal.
                       list_ex (\<lambda>kernelElement.
                         includes_str (toLowerCase goal) (toLowerCase kernelElement) \<or>
                         includes_str (toLowerCase kernelElement) (toLowerCase goal)) kern) gs);
                   alignmentScore = real goalKernelOverlap / real (max (length gs) 1);
                   explicitAlignment = or_else (alignment_with_identity proj) alignmentScore
               in (alignmentScore + explicitAlignment) / 2))"

definition calculateGoalDiversity :: "string list option \<Rightarrow> real" where
  "calculateGoalDiversity gs0 =
     (case gs0 of
        None \<Rightarrow> 0
      | Some gs \<Rightarrow>
          if length gs = 0 then 0
          else
            let uniqueGoalTypes = length (Set_new (map split_first gs));
                diversityScore = min 1 (real uniqueGoalTypes / 5)
            in diversityScore)"

definition timelineMap :: "real object" where
  "timelineMap =
     [(''1_year'', 0.7), (''3_years'', 0.8), (''5_years'', 0.9), (''10_years'', 0.8),
      (''20_years'', 0.6)]"

definition assessTimelineRealism :: "string \<Rightarrow> real" where
  "assessTimelineRealism tline = or_else (get timelineMap tline) 0.5"

definition calculateAdaptiveCapacity :: "projections \<Rightarrow> real" where
  "calculateAdaptiveCapacity proj =
     (let goalDiversity = calculateGoalDiversity (goals proj);
          timelineRealism = assessTimelineRealism (timeline proj)
      in (goalDiversity + timelineRealism) / 2)"

definition calculateProspectiveCoherence :: "projections \<Rightarrow> string list option \<Rightarrow> real" where
  "calculateProspectiveCoherence futureProjections identityKernel =
     (let projectionAlignment = calculateProjectionAlignment futureProjections identityKernel;
          adaptiveCapacity = calculateAdaptiveCapacity futureProjections
      in 0.6 * projectionAlignment + 0.4 * adaptiveCapacity)"

definition assessModificationAbility :: "self_modification \<Rightarrow> real" where
  "assessModificationAbility modData =
     (case modification_history modData of
        None \<Rightarrow> 0.3
      | Some hist \<Rightarrow>
          let historyLength = length hist;
              diversityScore = length (Set_new (map split_first hist))
          in min 1 ((real historyLength * 0.2) + (real diversityScore * 0.1)))"

definition assessCoherenceMaintenance :: "self_modification \<Rightarrow> real" where
  "assessCoherenceMaintenance modData = or_else (coherence_maintenance_capacity modData) 0.5"

definition calculateMetaConstructorCapacity :: "self_modification \<Rightarrow> real" where
  "calculateMetaConstructorCapacity selfModificationData =
     (let modificationAbility = assessModificationAbility selfModificationData;
          coherenceMaintenance = assessCoherenceMaintenance selfModificationData
      in 0.5 * modificationAbility + 0.5 * coherenceMaintenance)"

definition interpretATCFScore :: "real \<Rightarrow> interpretation_rec" where
  "interpretATCFScore score =
     (if score \<ge> 0.8 then
        \<lparr>level = ''excellent'', description = ''Excellent temporal coherence'',
         recommendation = ''Maintain current practices and consider mentoring others''\<rparr>
      else if score \<ge> 0.7 then
        \<lparr>level = ''good'', description = ''Good temporal coherence'',
         recommendation = ''Continue current development with minor optimizations''\<rparr>
      else if score \<ge> 0.5 then
        \<lparr>level = ''moderate'', description = ''Moderate temporal coherence'',
         recommendation =
           ''Focus on strengthening weak components through targeted interventions''\<rparr>
      else if score \<ge> 0.3 then
        \<lparr>level = ''low'', description = ''Low temporal coherence'',
         recommendation =
           ''Comprehensive intervention recommended - consider temporal coherence therapy''\<rparr>
      else
        \<lparr>level = ''very_low'', description = ''Very low temporal coherence'',
         recommendation =
           ''Immediate intervention required - consult with trained practitioner''\<rparr>)"

text \<open>
  The result is \<open>Inr None\<close> when the historical continuity is not a finite number: the
  source then returns a result whose scores \<^verbatim>\<open>HC\<close> and \<^verbatim>\<open>total_score\<close> are not finite
  numbers either.
\<close>

definition calculateATCF :: "calculator \<Rightarrow> agent \<Rightarrow> real \<Rightarrow> error + atcf_result option" where
  "calculateATCF this agentData current =
     (let historicalContinuity = calculateHistoricalContinuity (identity_history agentData) current
      in case calculatePresentIntegration (uev_data agentData) (broa_data agentData) of
           Inl e \<Rightarrow> Inl e
         | Inr pi_score \<Rightarrow>
             (let pc = calculateProspectiveCoherence (future_projections agentData)
                         (identity_kernel agentData);
                  mcc = calculateMetaConstructorCapacity (self_modification_data agentData)
              in (case historicalContinuity of
                    Finite hc \<Rightarrow>
                      (let totalScore =
                             alpha (calculator.weights this) * hc
                             + beta (calculator.weights this) * pi_score
                             + gamma (calculator.weights this) * pc
                             + delta (calculator.weights this) * mcc
                       in Inr (Some
                            \<lparr>total_score = max 0 (min 1 totalScore),
                             components =
                               \<lparr>HC = max 0 (min 1 hc), PI = max 0 (min 1 pi_score),
                                PC = max 0 (min 1 pc), MCC = max 0 (min 1 mcc)\<rparr>,
                             weights = calculator.weights this,
                             assessment_timestamp = current,
                             score_interpretation = interpretATCFScore totalScore,
                             cultural_adaptation = None\<rparr>))
                  | PosInfinity \<Rightarrow> Inr None
                  | NegInfinity \<Rightarrow> Inr None
                  | NaN \<Rightarrow> Inr None)))"

text \<open>
  The table \<^verbatim>\<open>window.FrameworkData.culturalFrameworks\<close> is not part of the sources at hand
  and is a parameter: \<open>None\<close> when \<^verbatim>\<open>FrameworkData\<close> or the table is missing, an ordinary
  object otherwise. A tag that is not listed but names a property that every object
  inherits from \<^verbatim>\<open>Object.prototype\<close> passes the test of the first line and has no
  \<^verbatim>\<open>atcf_modifiers\<close>, so that reading \<^verbatim>\<open>modifiers.alpha\<close> throws.
  The result is \<open>Inr None\<close> when the products sum to zero: the source divides by that sum
  and the coefficients are then \<^verbatim>\<open>NaN\<close> or infinite.
\<close>

definition Object_prototype_properties :: "string list" where
  "Object_prototype_properties =
     [''constructor'', ''__defineGetter__'', ''__defineSetter__'', ''hasOwnProperty'',
      ''__lookupGetter__'', ''__lookupSetter__'', ''isPrototypeOf'', ''propertyIsEnumerable'',
      ''toString'', ''valueOf'', ''__proto__'', ''toLocaleString'']"

definition adaptForCulture ::
  "cultural_frameworks option \<Rightarrow> string option \<Rightarrow> weight_set \<Rightarrow> error + weight_set option" where
  "adaptForCulture frameworkData culturalContext baseWeights =
     (case frameworkData of
        None \<Rightarrow> Inr (Some baseWeights)
      | Some culturalFrameworks \<Rightarrow>
          (case culturalFrameworks (property_key culturalContext) of
             None \<Rightarrow>
               if property_key culturalContext \<in> set Object_prototype_properties
               then Inl TypeError
               else Inr (Some baseWeights)
           | Some cultural \<Rightarrow>
               let modifiers = atcf_modifiers cultural;
                   adaptedWeights =
                     \<lparr>alpha = alpha baseWeights * alpha modifiers,
                      beta = beta baseWeights * beta modifiers,
                      gamma = gamma baseWeights * gamma modifiers,
                      delta = delta baseWeights * delta modifiers\<rparr>;
                   total = foldl (\<lambda>sum weight. sum + weight) 0
                             (Object_values_weights adaptedWeights)
               in if total = 0 then Inr None
                  else Inr (Some \<lparr>alpha = alpha adaptedWeights / total,
                                  beta = beta adaptedWeights / total,
                                  gamma = gamma adaptedWeights / total,
                                  delta = delta adaptedWeights / total\<rparr>)))"

text \<open>
  The calculator is the state. When \<^verbatim>\<open>adaptForCulture\<close> throws, nothing has been assigned
  yet. When \<^verbatim>\<open>calculateATCF\<close> throws, the assignment that restores the weights is not
  reached and the adapted weights stay stored.
\<close>

definition calculateCulturallyAdaptedATCF ::
  "cultural_frameworks option \<Rightarrow> agent \<Rightarrow> real \<Rightarrow> calculator
   \<Rightarrow> (atcf_result, calculator) outcome" where
  "calculateCulturallyAdaptedATCF frameworkData agentData current this =
     (let culturalContext = cultural_background agentData
      in case adaptForCulture frameworkData culturalContext (calculator.weights this) of
           Inl e \<Rightarrow> Thrown e this
         | Inr None \<Rightarrow> NonFinite
         | Inr (Some adaptedWeights) \<Rightarrow>
             (let originalWeights = calculator.weights this;
                  this1 = this\<lparr>calculator.weights := adaptedWeights\<rparr>
              in (case calculateATCF this1 agentData current of
                    Inl e \<Rightarrow> Thrown e this1
                  | Inr None \<Rightarrow> NonFinite
                  | Inr (Some result) \<Rightarrow>
                      Returned
                        (result\<lparr>cultural_adaptation :=
                           Some \<lparr>original_weights = originalWeights,
                                 adapted_weights = adaptedWeights,
                                 cultural_context = culturalContext\<rparr>\<rparr>)
                        (this1\<lparr>calculator.weights := originalWeights\<rparr>))))"

section \<open>CoordinationAssessment\<close>

record coordination_assessment =
  coordinationThreshold :: real
  atcfCalculator :: calculator

definition CoordinationAssessment_new :: "error + coordination_assessment" where
  "CoordinationAssessment_new =
     (case ATCFCalculator_new default_weights of
        Inl e \<Rightarrow> Inl e
      | Inr c \<Rightarrow> Inr \<lparr>coordinationThreshold = 0.7, atcfCalculator = c\<rparr>)"

text \<open>
  \<^verbatim>\<open>compatibilityMatrix[a]?.[b]\<close> on styles read from an object, hence possibly
  \<^verbatim>\<open>undefined\<close>.
\<close>

definition matrix_get :: "real object object \<Rightarrow> string option \<Rightarrow> string option \<Rightarrow> real option" where
  "matrix_get m k1 k2 =
     (case get m (property_key k1) of
        None \<Rightarrow> None
      | Some row \<Rightarrow> get row (property_key k2))"

text \<open>
  The sum over the common beliefs. A belief that is not a property of one of the objects
  would make the sum \<^verbatim>\<open>NaN\<close>, which is \<open>None\<close>.
\<close>

fun beliefLoop :: "real object \<Rightarrow> real object \<Rightarrow> string list \<Rightarrow> real \<Rightarrow> real option" where
  "beliefLoop beliefs1 beliefs2 [] totalCompatibility = Some totalCompatibility"
| "beliefLoop beliefs1 beliefs2 (belief # rest) totalCompatibility =
     (case get beliefs1 belief of
        None \<Rightarrow> None
      | Some v1 \<Rightarrow>
          (case get beliefs2 belief of
             None \<Rightarrow> None
           | Some v2 \<Rightarrow>
               (let diff = \<bar>v1 - v2\<bar>;
                    compatibility = 1 - diff
                in beliefLoop beliefs1 beliefs2 rest (totalCompatibility + compatibility))))"

definition calculateBeliefCompatibility ::
  "real object option \<Rightarrow> real object option \<Rightarrow> real option" where
  "calculateBeliefCompatibility bs1 bs2 =
     (case bs1 of
        None \<Rightarrow> Some 0.5
      | Some beliefs1 \<Rightarrow>
          (case bs2 of
             None \<Rightarrow> Some 0.5
           | Some beliefs2 \<Rightarrow>
               (let commonBeliefs =
                      filter (\<lambda>key. key \<in> set (Object_keys beliefs2)) (Object_keys beliefs1)
                in if length commonBeliefs = 0 then Some 0.3
                   else (case beliefLoop beliefs1 beliefs2 commonBeliefs 0 of
                           None \<Rightarrow> None
                         | Some totalCompatibility \<Rightarrow>
                             Some (totalCompatibility / real (length commonBeliefs))))))"

definition decisionMatrix :: "real object object" where
  "decisionMatrix =
     [(''individual_focused'',
        [(''individual_focused'', 0.9), (''consensus_based'', 0.4), (''hierarchical'', 0.3),
         (''collaborative'', 0.6)]),
      (''consensus_based'',
        [(''individual_focused'', 0.4), (''consensus_based'', 0.9), (''hierarchical'', 0.5),
         (''collaborative'', 0.8)])]"

definition assessDecisionCompatibility :: "string option \<Rightarrow> string option \<Rightarrow> real" where
  "assessDecisionCompatibility style1 style2 = or_else (matrix_get decisionMatrix style1 style2) 0.5"

definition conflictMatrix :: "real object object" where
  "conflictMatrix =
     [(''direct_communication'',
        [(''direct_communication'', 0.9), (''harmony_preservation'', 0.3),
         (''authority_based'', 0.4), (''mediated_discussion'', 0.7)]),
      (''harmony_preservation'',
        [(''direct_communication'', 0.3), (''harmony_preservation'', 0.9),
         (''authority_based'', 0.6), (''mediated_discussion'', 0.8)])]"

definition assessConflictCompatibility :: "string option \<Rightarrow> string option \<Rightarrow> real" where
  "assessConflictCompatibility style1 style2 = or_else (matrix_get conflictMatrix style1 style2) 0.5"

definition goalMatrix :: "real object object" where
  "goalMatrix =
     [(''personal_achievement'',
        [(''personal_achievement'', 0.8), (''collective_benefit'', 0.4),
         (''hierarchical_alignment'', 0.3), (''collaborative_outcome'', 0.6)]),
      (''collective_benefit'',
        [(''personal_achievement'', 0.4), (''collective_benefit'', 0.9),
         (''hierarchical_alignment'', 0.7), (''collaborative_outcome'', 0.8)])]"

definition assessGoalCompatibility :: "string option \<Rightarrow> string option \<Rightarrow> real" where
  "assessGoalCompatibility style1 style2 = or_else (matrix_get goalMatrix style1 style2) 0.5"

definition calculateRuleCompatibility ::
  "string object option \<Rightarrow> string object option \<Rightarrow> real" where
  "calculateRuleCompatibility rs1 rs2 =
     (case rs1 of
        None \<Rightarrow> 0.5
      | Some rules1 \<Rightarrow>
          (case rs2 of
             None \<Rightarrow> 0.5
           | Some rules2 \<Rightarrow>
               (let decisionCompatibility =
                      assessDecisionCompatibility (get rules1 ''decision_making'')
                        (get rules2 ''decision_making'');
                    conflictCompatibility =
                      assessConflictCompatibility (get rules1 ''conflict_resolution'')
                        (get rules2 ''conflict_resolution'');
                    goalCompatibility =
                      assessGoalCompatibility (get rules1 ''goal_setting'')
                        (get rules2 ''goal_setting'')
                in (decisionCompatibility + conflictCompatibility + goalCompatibility) / 3)))"

definition agencyMatrix :: "real object object" where
  "agencyMatrix =
     [(''independent'',
        [(''independent'', 0.9), (''interdependent'', 0.4), (''hierarchical'', 0.3),
         (''collective'', 0.5)]),
      (''interdependent'',
        [(''independent'', 0.4), (''interdependent'', 0.9), (''hierarchical'', 0.6),
         (''collective'', 0.8)])]"

definition assessAgencyCompatibility :: "string option \<Rightarrow> string option \<Rightarrow> real" where
  "assessAgencyCompatibility agency1 agency2 = or_else (matrix_get agencyMatrix agency1 agency2) 0.5"

definition timeMatrix :: "real object object" where
  "timeMatrix =
     [(''future_focused'',
        [(''future_focused'', 0.9), (''present_focused'', 0.6), (''past_honoring'', 0.4),
         (''cyclical_continuity'', 0.5)]),
      (''cyclical_continuity'',
        [(''future_focused'', 0.5), (''present_focused'', 0.8), (''past_honoring'', 0.8),
         (''cyclical_continuity'', 0.9)])]"

definition assessTimeCompatibility :: "string option \<Rightarrow> string option \<Rightarrow> real" where
  "assessTimeCompatibility time1 time2 = or_else (matrix_get timeMatrix time1 time2) 0.5"

definition relationshipMatrix :: "real object object" where
  "relationshipMatrix =
     [(''voluntary_association'',
        [(''voluntary_association'', 0.9), (''embedded_obligation'', 0.3),
         (''hierarchical_structure'', 0.2), (''reciprocal_exchange'', 0.7)]),
      (''embedded_obligation'',
        [(''voluntary_association'', 0.3), (''embedded_obligation'', 0.9),
         (''hierarchical_structure'', 0.7), (''reciprocal_exchange'', 0.6)])]"

definition assessRelationshipCompatibility :: "string option \<Rightarrow> string option \<Rightarrow> real" where
  "assessRelationshipCompatibility model1 model2 =
     or_else (matrix_get relationshipMatrix model1 model2) 0.5"

definition calculateOntologyCompatibility ::
  "string object option \<Rightarrow> string object option \<Rightarrow> real" where
  "calculateOntologyCompatibility os1 os2 =
     (case os1 of
        None \<Rightarrow> 0.5
      | Some ontology1 \<Rightarrow>
          (case os2 of
             None \<Rightarrow> 0.5
           | Some ontology2 \<Rightarrow>
               (let agencyCompatibility =
                      assessAgencyCompatibility (get ontology1 ''agency_conception'')
                        (get ontology2 ''agency_conception'');
                    timeCompatibility =
                      assessTimeCompatibility (get ontology1 ''time_orientation'')
                        (get ontology2 ''time_orientation'');
                    relationshipCompatibility =
                      assessRelationshipCompatibility (get ontology1 ''relationship_model'')
                        (get ontology2 ''relationship_model'')
                in (agencyCompatibility + timeCompatibility + relationshipCompatibility) / 3)))"

definition calculateIdentityKernelOverlap :: "string list option \<Rightarrow> string list option \<Rightarrow> real" where
  "calculateIdentityKernelOverlap kernel1 kernel2 =
     (case kernel1 of
        None \<Rightarrow> 0
      | Some k1 \<Rightarrow>
          (case kernel2 of
             None \<Rightarrow> 0
           | Some k2 \<Rightarrow>
               if length k1 = 0 \<or> length k2 = 0 then 0
               else
                 let set1 = Set_new k1;
                     set2 = Set_new k2;
                     intersection = Set_new (filter (\<lambda>x. x \<in> set set2) set1);
                     union = Set_new (set1 @ set2)
                 in real (length intersection) / real (length union)))"

text \<open>
  \<^verbatim>\<open>auth.value_alignment\<close> is read here with no default: a missing one gives
  \<^verbatim>\<open>NaN\<close>, which is \<open>None\<close>.
\<close>

definition calculateAuthenticityCompatibility ::
  "authenticity_rec option \<Rightarrow> authenticity_rec option \<Rightarrow> real option" where
  "calculateAuthenticityCompatibility a1 a2 =
     (case a1 of
        None \<Rightarrow> Some 0.5
      | Some auth1 \<Rightarrow>
          (case a2 of
             None \<Rightarrow> Some 0.5
           | Some auth2 \<Rightarrow>
               (let kernelOverlap =
                      calculateIdentityKernelOverlap (auth_identity_kernel auth1)
                        (auth_identity_kernel auth2)
                in (case value_alignment auth1 of
                      None \<Rightarrow> None
                    | Some va1 \<Rightarrow>
                        (case value_alignment auth2 of
                           None \<Rightarrow> None
                         | Some va2 \<Rightarrow>
                             (let alignmentSimilarity = \<bar>va1 - va2\<bar>;
                                  alignmentCompatibility = 1 - alignmentSimilarity;
                                  consistencySimilarity =
                                    \<bar>self_consistency auth1 - self_consistency auth2\<bar>;
                                  consistencyCompatibility = 1 - consistencySimilarity
                              in Some ((kernelOverlap + alignmentCompatibility
                                        + consistencyCompatibility) / 3)))))))"

definition calculatePRFCompatibility :: "broa \<Rightarrow> broa \<Rightarrow> real option" where
  "calculatePRFCompatibility broa1 broa2 =
     (case calculateBeliefCompatibility (beliefs broa1) (beliefs broa2) of
        None \<Rightarrow> None
      | Some beliefCompatibility \<Rightarrow>
          (let ruleCompatibility = calculateRuleCompatibility (rules broa1) (rules broa2);
               ontologyCompatibility =
                 calculateOntologyCompatibility (ontology broa1) (ontology broa2)
           in (case calculateAuthenticityCompatibility (authenticity broa1) (authenticity broa2) of
                 None \<Rightarrow> None
               | Some authenticityCompatibility \<Rightarrow>
                   Some ((beliefCompatibility + ruleCompatibility + ontologyCompatibility
                          + authenticityCompatibility) / 4))))"

definition calculateCapabilityOverlap :: "string list option \<Rightarrow> string list option \<Rightarrow> real" where
  "calculateCapabilityOverlap cs1 cs2 =
     (case cs1 of
        None \<Rightarrow> 0.3
      | Some capabilities1 \<Rightarrow>
          (case cs2 of
             None \<Rightarrow> 0.3
           | Some capabilities2 \<Rightarrow>
               if length capabilities1 = 0 \<or> length capabilities2 = 0 then 0.3
               else
                 let set1 = Set_new capabilities1;
                     set2 = Set_new capabilities2;
                     intersection = Set_new (filter (\<lambda>x. x \<in> set set2) set1);
                     union = Set_new (set1 @ set2);
                     overlapRatio = real (length intersection) / real (length union);
                     complementarityRatio =
                       (real (length union) - real (length intersection)) / real (length union)
                 in 0.4 * overlapRatio + 0.6 * min 1 (complementarityRatio * 2)))"

definition culturalCompatibilityMatrix :: "real object object" where
  "culturalCompatibilityMatrix =
     [(''individualistic'',
        [(''collectivistic'', 0.6), (''indigenous'', 0.5), (''traditional'', 0.4)]),
      (''collectivistic'',
        [(''individualistic'', 0.6), (''indigenous'', 0.7), (''traditional'', 0.8)]),
      (''indigenous'',
        [(''individualistic'', 0.5), (''collectivistic'', 0.7), (''traditional'', 0.6)]),
      (''traditional'',
        [(''individualistic'', 0.4), (''collectivistic'', 0.8), (''indigenous'', 0.6)])]"

definition calculateCulturalCoordination :: "string option \<Rightarrow> string option \<Rightarrow> real" where
  "calculateCulturalCoordination culture1 culture2 =
     (if \<not> truthy culture1 \<or> \<not> truthy culture2 then 0.5
      else if culture1 = culture2 then 0.8
      else or_else (matrix_get culturalCompatibilityMatrix culture1 culture2) 0.5)"

record recommendation_rec =
  level :: string
  description :: string
  action :: string
  confidence :: string

definition generateCoordinationRecommendation :: "real \<Rightarrow> recommendation_rec" where
  "generateCoordinationRecommendation coordinationPotential =
     (if coordinationPotential \<ge> 0.8 then
        \<lparr>level = ''excellent'', description = ''Excellent coordination potential'',
         action = ''Proceed with standard coordination protocols'', confidence = ''high''\<rparr>
      else if coordinationPotential \<ge> 0.7 then
        \<lparr>level = ''good'', description = ''Good coordination potential'',
         action = ''Focus on capability-based coordination protocols'', confidence = ''high''\<rparr>
      else if coordinationPotential \<ge> 0.5 then
        \<lparr>level = ''moderate'', description = ''Moderate coordination potential'',
         action = ''Implement cultural adaptation strategies and ATCF enhancement'',
         confidence = ''medium''\<rparr>
      else if coordinationPotential \<ge> 0.3 then
        \<lparr>level = ''low'', description = ''Low coordination potential'',
         action =
           ''Intensive capability development and cultural bridge-building recommended'',
         confidence = ''medium''\<rparr>
      else
        \<lparr>level = ''very_low'', description = ''Very low coordination potential'',
         action = ''Consider alternative partnerships or extensive preparatory work'',
         confidence = ''low''\<rparr>)"

datatype priority_tag = critical | high | medium | low

record intervention =
  type :: string
  priority :: priority_tag
  strategy :: string
  timeline :: string
  expected_improvement :: real

definition priorityOrder :: "priority_tag \<Rightarrow> real" where
  "priorityOrder p = (case p of critical \<Rightarrow> 4 | high \<Rightarrow> 3 | medium \<Rightarrow> 2 | low \<Rightarrow> 1)"

text \<open>
  \<^verbatim>\<open>Array.prototype.sort\<close> with a comparator is a stable sort: an element moves in front
  of another one only when the comparator is positive on the pair in their present order.
  It is modelled as insertion from the right end.
\<close>

fun sort_insert :: "('a \<Rightarrow> 'a \<Rightarrow> real) \<Rightarrow> 'a \<Rightarrow> 'a list \<Rightarrow> 'a list" where
  "sort_insert cmp x [] = [x]"
| "sort_insert cmp x (y # ys) = (if cmp x y \<le> 0 then x # y # ys else y # sort_insert cmp x ys)"

definition Array_sort :: "('a \<Rightarrow> 'a \<Rightarrow> real) \<Rightarrow> 'a list \<Rightarrow> 'a list" where
  "Array_sort cmp xs = foldr (sort_insert cmp) xs []"

text \<open>The list \<^verbatim>\<open>strategies\<close> after the four conditional pushes, before it is sorted.\<close>

definition pushedStrategies :: "real \<Rightarrow> real \<Rightarrow> real \<Rightarrow> real \<Rightarrow> intervention list" where
  "pushedStrategies coordinationPotential prfCompatibility capabilityOverlap culturalCoordination =
     (let s0 = [];
          s1 = (if prfCompatibility < 0.6 then
                  s0 @ [\<lparr>type = ''prf_alignment'', priority = high,
                          strategy =
                            ''Implement belief-bridging exercises and rule harmonization protocols'',
                          timeline = ''2-4 weeks'', expected_improvement = 0.2\<rparr>]
                else s0);
          s2 = (if capabilityOverlap < 0.5 then
                  s1 @ [\<lparr>type = ''capability_development'', priority = medium,
                          strategy =
                            ''Focus on complementary capability training and cross-skilling'',
                          timeline = ''4-8 weeks'', expected_improvement = 0.25\<rparr>]
                else s1);
          s3 = (if culturalCoordination < 0.6 then
                  s2 @ [\<lparr>type = ''cultural_bridging'', priority = high,
                          strategy =
                            ''Implement cultural competency training and adaptation protocols'',
                          timeline = ''3-6 weeks'', expected_improvement = 0.3\<rparr>]
                else s2);
          s4 = (if coordinationPotential < 0.5 then
                  s3 @ [\<lparr>type = ''comprehensive_coordination'', priority = critical,
                          strategy =
                            ''Multi-modal coordination enhancement program including ATCF therapy'',
                          timeline = ''8-12 weeks'', expected_improvement = 0.4\<rparr>]
                else s3)
      in s4)"

definition identifyInterventionStrategies ::
  "real \<Rightarrow> real \<Rightarrow> real \<Rightarrow> real \<Rightarrow> intervention list" where
  "identifyInterventionStrategies coordinationPotential prfCompatibility capabilityOverlap
       culturalCoordination =
     Array_sort (\<lambda>a b. priorityOrder (priority b) - priorityOrder (priority a))
       (pushedStrategies coordinationPotential prfCompatibility capabilityOverlap
          culturalCoordination)"

record individual_atcf_rec =
  agent1 :: atcf_result
  agent2 :: atcf_result

record coordination_result =
  coordination_potential :: real
  individual_atcf :: individual_atcf_rec
  prf_compatibility :: real
  capability_overlap :: real
  cultural_coordination :: real
  recommendation :: recommendation_rec
  intervention_strategies :: "intervention list"

text \<open>
  The two calls of \<^verbatim>\<open>calculateCulturallyAdaptedATCF\<close> read the clock by themselves
  (\<^verbatim>\<open>Date.now()\<close>); the two readings are the parameters \<open>now1\<close> and \<open>now2\<close>. The unused
  parameter \<^verbatim>\<open>taskContext\<close> is left out.
\<close>

definition assessCrossAgentCoordination ::
  "cultural_frameworks option \<Rightarrow> real \<Rightarrow> real \<Rightarrow> agent \<Rightarrow> agent \<Rightarrow> coordination_assessment
   \<Rightarrow> (coordination_result, coordination_assessment) outcome" where
  "assessCrossAgentCoordination culturalFrameworks now1 now2 agent1Data agent2Data this =
     (case calculateCulturallyAdaptedATCF culturalFrameworks agent1Data now1 (atcfCalculator this) of
        NonFinite \<Rightarrow> NonFinite
      | Thrown e c \<Rightarrow> Thrown e (this\<lparr>atcfCalculator := c\<rparr>)
      | Returned atcf1 c1 \<Rightarrow>
          (case calculateCulturallyAdaptedATCF culturalFrameworks agent2Data now2 c1 of
             NonFinite \<Rightarrow> NonFinite
           | Thrown e c \<Rightarrow> Thrown e (this\<lparr>atcfCalculator := c\<rparr>)
           | Returned atcf2 c2 \<Rightarrow>
               (case calculatePRFCompatibility (broa_data agent1Data) (broa_data agent2Data) of
                  None \<Rightarrow> NonFinite
                | Some prfCompatibility \<Rightarrow>
                    (let capabilityOverlap =
                           calculateCapabilityOverlap
                             (Some (case capabilities agent1Data of None \<Rightarrow> [] | Some cs \<Rightarrow> cs))
                             (Some (case capabilities agent2Data of None \<Rightarrow> [] | Some cs \<Rightarrow> cs));
                         culturalCoordination =
                           calculateCulturalCoordination (cultural_background agent1Data)
                             (cultural_background agent2Data);
                         coordinationPotential =
                           0.3 * min (total_score atcf1) (total_score atcf2)
                           + 0.25 * prfCompatibility + 0.25 * capabilityOverlap
                           + 0.2 * culturalCoordination
                     in Returned
                          \<lparr>coordination_potential = max 0 (min 1 coordinationPotential),
                           individual_atcf = \<lparr>agent1 = atcf1, agent2 = atcf2\<rparr>,
                           prf_compatibility = prfCompatibility,
                           capability_overlap = capabilityOverlap,
                           cultural_coordination = culturalCoordination,
                           recommendation =
                             generateCoordinationRecommendation coordinationPotential,
                           intervention_strategies =
                             identifyInterventionStrategies coordinationPotential
                               prfCompatibility capabilityOverlap culturalCoordination\<rparr>
                          (this\<lparr>atcfCalculator := c2\<rparr>)))))"

section \<open>Notions used in the statements\<close>

text \<open>Sums over the four coefficients.\<close>

definition coefficient_sum :: "weight_set \<Rightarrow> real" where
  "coefficient_sum w = alpha w + beta w + gamma w + delta w"

definition product_sum :: "weight_set \<Rightarrow> weight_set \<Rightarrow> real" where
  "product_sum w m = alpha w * alpha m + beta w * beta m + gamma w * gamma m + delta w * delta m"

text \<open>What a call left behind: the value it returned, and the state of the object.\<close>

fun returned :: "('a, 's) outcome \<Rightarrow> 'a option" where
  "returned (Returned r s) = Some r"
| "returned (Thrown e s) = None"
| "returned NonFinite = None"

fun state_after :: "('a, 's) outcome \<Rightarrow> 's option" where
  "state_after (Returned r s) = Some s"
| "state_after (Thrown e s) = Some s"
| "state_after NonFinite = None"

text \<open>The unit interval.\<close>

definition in_unit :: "real \<Rightarrow> bool" where
  "in_unit x \<longleftrightarrow> 0 \<le> x \<and> x \<le> 1"

text \<open>Overlap and complementarity of two sets, as the specification words them.\<close>

definition jaccard :: "'a set \<Rightarrow> 'a set \<Rightarrow> real" where
  "jaccard A B = real (card (A \<inter> B)) / real (card (A \<union> B))"

definition complementarity :: "'a set \<Rightarrow> 'a set \<Rightarrow> real" where
  "complementarity A B = (real (card (A \<union> B)) - real (card (A \<inter> B))) / real (card (A \<union> B))"

text \<open>
  The similarity of two identity kernels (0 when one of them is empty or missing), the
  weight of a snapshot, and the weighted average of the similarities between a reference
  kernel and the snapshots of a history.
\<close>

definition kernel_set :: "string list option \<Rightarrow> string set" where
  "kernel_set k = (case k of None \<Rightarrow> {} | Some xs \<Rightarrow> set xs)"

definition kernel_similarity :: "string set \<Rightarrow> string set \<Rightarrow> real" where
  "kernel_similarity A B = (if A = {} \<or> B = {} then 0 else jaccard A B)"

definition temporalWeight :: "real \<Rightarrow> snapshot \<Rightarrow> real" where
  "temporalWeight currentTime p =
     exp (- ((currentTime - timestamp p) / (1000 * 60 * 60 * 24)) / 30)"

definition weighted_similarity_average :: "string set \<Rightarrow> snapshot list \<Rightarrow> real \<Rightarrow> real" where
  "weighted_similarity_average K h currentTime =
     (\<Sum>p\<leftarrow>h. temporalWeight currentTime p
               * kernel_similarity K (kernel_set (snapshot_identity_kernel p)))
     / (\<Sum>p\<leftarrow>h. temporalWeight currentTime p)"

text \<open>
  A snapshot whose timestamp lies within 20000 days (54 years) of the current time: its
  weight is far from the underflow and the overflow of \<^verbatim>\<open>Math.exp\<close>.
\<close>

definition recent :: "real \<Rightarrow> snapshot \<Rightarrow> bool" where
  "recent currentTime p \<longleftrightarrow>
     \<bar>currentTime - timestamp p\<bar> \<le> 20000 * (1000 * 60 * 60 * 24)"

text \<open>
  Historical continuity as the specification words it: the reference kernel is the agent's
  own identity kernel.
\<close>

definition claimed_historical_continuity :: "agent \<Rightarrow> real \<Rightarrow> real" where
  "claimed_historical_continuity a currentTime =
     (case identity_history a of
        None \<Rightarrow> 0
      | Some h \<Rightarrow>
          if h = [] then 0
          else weighted_similarity_average (kernel_set (identity_kernel a)) h currentTime)"

text \<open>
  Mean and variance of a list of numbers, and the Pearson correlation of two value vectors;
  it counts as 0 for vectors of different or zero length and for a vector without variance.
\<close>

definition mean :: "real list \<Rightarrow> real" where
  "mean xs = sum_list xs / real (length xs)"

definition variance :: "real list \<Rightarrow> real" where
  "variance xs = (\<Sum>x\<leftarrow>xs. (x - mean xs) ^ 2) / real (length xs)"








text \<open>The score that \<^verbatim>\<open>calculateProjectionAlignment\<close> computes from goals and kernel.\<close>

definition alignmentScore :: "string list \<Rightarrow> string list \<Rightarrow> real" where
  "alignmentScore gs kern =
     real (length (filter (\<lambda>goal.
        list_ex (\<lambda>kernelElement.
          includes_str (toLowerCase goal) (toLowerCase kernelElement) \<or>
          includes_str (toLowerCase kernelElement) (toLowerCase goal)) kern) gs))
     / real (max (length gs) 1)"

section \<open>Example data\<close>

text \<open>
  An agent, a modifier table, present-state data with perfectly correlated components and a
  fresh assessment object, on which the functions are evaluated below.
\<close>

definition example_agent :: agent where
  "example_agent =
     \<lparr>cultural_background = Some ''collectivistic'',
      identity_history = Some [\<lparr>timestamp = 0, snapshot_identity_kernel = Some [''teacher'']\<rparr>],
      identity_kernel = Some [''scholar''],
      uev_data =
        \<lparr>global_feeling_tone = [(''valence'', 0.5)], emotional_motivation = [(''drive'', 0.5)],
         rational_deliberation = [(''clarity'', 0.5)], action_readiness = [(''energy'', 0.5)]\<rparr>,
      broa_data =
        \<lparr>beliefs = Some [(''trust'', 0.5)], rules = None, ontology = None,
         authenticity =
           Some \<lparr>auth_identity_kernel = None, value_alignment = Some 0.5,
                 self_consistency = 0.5\<rparr>\<rparr>,
      future_projections =
        \<lparr>goals = Some [''scholar_growth''], projections.timeline = ''5_years'',
         alignment_with_identity = None\<rparr>,
      self_modification_data =
        \<lparr>modification_history = None, coherence_maintenance_capacity = None\<rparr>,
      capabilities = Some [''a'', ''b'']\<rparr>"

definition example_table :: cultural_frameworks where
  "example_table =
     (\<lambda>t. if t = ''collectivistic''
          then Some \<lparr>atcf_modifiers = \<lparr>alpha = 2, beta = 1, gamma = 1, delta = 1\<rparr>\<rparr>
          else None)"

definition example_frameworks :: "cultural_frameworks option" where
  "example_frameworks = Some example_table"


definition example_assessment :: coordination_assessment where
  "example_assessment =
     \<lparr>coordinationThreshold = 0.7, atcfCalculator = \<lparr>calculator.weights = default_weights\<rparr>\<rparr>"

text \<open>
  Variants of the agent: with an older first snapshot of another kernel, with an empty
  belief object, with a stated identity kernel in the authenticity record, with a belief
  strength outside the unit interval, and without a stated value alignment.
\<close>

definition drifted_agent :: agent where
  "drifted_agent =
     example_agent\<lparr>identity_history :=
       Some [\<lparr>timestamp = - 2592000000, snapshot_identity_kernel = Some [''teacher'']\<rparr>,
             \<lparr>timestamp = 0, snapshot_identity_kernel = Some [''scholar'']\<rparr>]\<rparr>"

definition empty_beliefs_agent :: agent where
  "empty_beliefs_agent =
     example_agent\<lparr>broa_data := (broa_data example_agent)\<lparr>beliefs := Some []\<rparr>\<rparr>"

definition kindred_agent :: agent where
  "kindred_agent =
     example_agent\<lparr>broa_data :=
       (broa_data example_agent)\<lparr>authenticity :=
         Some \<lparr>auth_identity_kernel = Some [''scholar''], value_alignment = Some 0.5,
               self_consistency = 0.5\<rparr>\<rparr>\<rparr>"

definition fervent_agent :: agent where
  "fervent_agent =
     kindred_agent\<lparr>broa_data := (broa_data kindred_agent)\<lparr>beliefs := Some [(''trust'', 4.5)]\<rparr>\<rparr>"

definition unaligned_agent :: agent where
  "unaligned_agent =
     example_agent\<lparr>broa_data :=
       (broa_data example_agent)\<lparr>authenticity :=
         Some \<lparr>auth_identity_kernel = None, value_alignment = None,
               self_consistency = 0.5\<rparr>\<rparr>\<rparr>"

definition outlier_agent :: agent where
  "outlier_agent =
     example_agent\<lparr>broa_data := (broa_data example_agent)\<lparr>beliefs := Some [(''trust'', 4.5)]\<rparr>\<rparr>"

section \<open>Weights: validation and cultural adaptation\<close>

lemma validateWeights_sum:
  "validateWeights c =
     (if \<bar>coefficient_sum (calculator.weights c) - 1\<bar> > 0.001
      then Inl (Error ''ATCF weights must sum to 1.0'') else Inr ())"
  by (simp add: validateWeights_def Object_values_weights_def coefficient_sum_def)

lemma ATCFCalculator_new_default:
  "ATCFCalculator_new default_weights = Inr \<lparr>calculator.weights = default_weights\<rparr>"
  by (simp add: ATCFCalculator_new_def validateWeights_sum coefficient_sum_def default_weights_def)










text \<open>
  With non-negative weights of positive sum and a table of positive modifiers, the adapted
  weights are always numbers.
\<close>

lemma product_sum_pos_nonneg:
  assumes w: "0 \<le> alpha w" "0 \<le> beta w" "0 \<le> gamma w" "0 \<le> delta w"
    and s: "0 < coefficient_sum w"
    and m: "0 < alpha m" "0 < beta m" "0 < gamma m" "0 < delta m"
  shows "0 < product_sum w m"
proof -
  have nn: "0 \<le> alpha w * alpha m" "0 \<le> beta w * beta m" "0 \<le> gamma w * gamma m"
    "0 \<le> delta w * delta m"
    using w m by simp_all
  from w s have "0 < alpha w \<or> 0 < beta w \<or> 0 < gamma w \<or> 0 < delta w"
    unfolding coefficient_sum_def by linarith
  then have "0 < alpha w * alpha m \<or> 0 < beta w * beta m \<or> 0 < gamma w * gamma m
      \<or> 0 < delta w * delta m"
    using m by auto
  with nn show ?thesis unfolding product_sum_def by linarith
qed

lemma adaptForCulture_finite:
  assumes "0 \<le> alpha w" "0 \<le> beta w" "0 \<le> gamma w" "0 \<le> delta w"
    and "0 < coefficient_sum w"
    and "\<And>tag cf. culturalFrameworks tag = Some cf \<Longrightarrow>
           0 < alpha (atcf_modifiers cf) \<and> 0 < beta (atcf_modifiers cf)
           \<and> 0 < gamma (atcf_modifiers cf) \<and> 0 < delta (atcf_modifiers cf)"
  shows "adaptForCulture (Some culturalFrameworks) culturalContext w \<noteq> Inr None"
proof (cases "culturalFrameworks (property_key culturalContext)")
  case None
  then show ?thesis by (simp add: adaptForCulture_def)
next
  case (Some cf)
  with assms(6) have "0 < alpha (atcf_modifiers cf)" "0 < beta (atcf_modifiers cf)"
    "0 < gamma (atcf_modifiers cf)" "0 < delta (atcf_modifiers cf)"
    by blast+
  with assms(1-5) have "0 < product_sum w (atcf_modifiers cf)"
    by (rule product_sum_pos_nonneg)
  then have "product_sum w (atcf_modifiers cf) \<noteq> 0" by simp
  with Some show ?thesis
    by (simp add: adaptForCulture_def Object_values_weights_def product_sum_def Let_def)
qed

section \<open>Capability overlap\<close>

lemma set_Set_new [simp]: "set (Set_new xs) = set xs"
  by (induction xs) auto

lemma distinct_Set_new [simp]: "distinct (Set_new xs)"
  by (induction xs) (auto simp: distinct_removeAll)

lemma length_Set_new: "length (Set_new xs) = card (set xs)"
  using distinct_card [OF distinct_Set_new, of xs] by simp

lemma length_intersection:
  "length (Set_new (filter (\<lambda>x. x \<in> set ys) (Set_new xs))) = card (set xs \<inter> set ys)"
proof -
  have "set (filter (\<lambda>x. x \<in> set ys) (Set_new xs)) = set xs \<inter> set ys"
    by auto
  then show ?thesis by (simp only: length_Set_new)
qed

lemma length_union:
  "length (Set_new (Set_new xs @ Set_new ys)) = card (set xs \<union> set ys)"
  by (simp add: length_Set_new)

lemma calculateCapabilityOverlap_nonempty:
  assumes "c1 \<noteq> []" "c2 \<noteq> []"
  shows "calculateCapabilityOverlap (Some c1) (Some c2) =
     0.4 * jaccard (set c1) (set c2) + 0.6 * min 1 (2 * complementarity (set c1) (set c2))"
  using assms
  by (simp add: calculateCapabilityOverlap_def Let_def length_intersection length_union
        jaccard_def complementarity_def mult.commute)

text \<open>
  C7: for non-empty capability lists the score is 0.4 times the Jaccard overlap plus 0.6
  times the minimum of 1 and twice the complementarity (the fraction of the union outside
  the intersection); for a, b against a, c it is 0.4 * (1/3) + 0.6 * 1; when either list
  is empty or missing it is 0.3.
\<close>

theorem C7_capability_overlap:
  "(c1 \<noteq> [] \<and> c2 \<noteq> [] \<longrightarrow>
      calculateCapabilityOverlap (Some c1) (Some c2) =
        0.4 * jaccard (set c1) (set c2) + 0.6 * min 1 (2 * complementarity (set c1) (set c2)))
   \<and> calculateCapabilityOverlap (Some [''a'', ''b'']) (Some [''a'', ''c'']) = 0.4 * (1 / 3) + 0.6 * 1
   \<and> (cs1 = None \<or> cs2 = None \<or> cs1 = Some [] \<or> cs2 = Some [] \<longrightarrow>
        calculateCapabilityOverlap cs1 cs2 = 0.3)"
proof (intro conjI impI)
  assume "c1 \<noteq> [] \<and> c2 \<noteq> []"
  then show "calculateCapabilityOverlap (Some c1) (Some c2) =
        0.4 * jaccard (set c1) (set c2) + 0.6 * min 1 (2 * complementarity (set c1) (set c2))"
    by (simp add: calculateCapabilityOverlap_nonempty)
next
  show "calculateCapabilityOverlap (Some [''a'', ''b'']) (Some [''a'', ''c'']) = 0.4 * (1 / 3) + 0.6 * 1"
    by (simp add: calculateCapabilityOverlap_def)
next
  assume "cs1 = None \<or> cs2 = None \<or> cs1 = Some [] \<or> cs2 = Some []"
  then show "calculateCapabilityOverlap cs1 cs2 = 0.3"
    by (auto simp add: calculateCapabilityOverlap_def split: option.splits)
qed

theorem C7_capability_overlap_witness:
  "[''a'', ''b''] \<noteq> [] \<and> [''a'', ''c''] \<noteq> []
   \<and> calculateCapabilityOverlap (Some [''a'', ''b'']) (Some [''a'', ''c'']) = 11 / 15
   \<and> jaccard (set [''a'', ''b'']) (set [''a'', ''c'']) = 1 / 3
   \<and> complementarity (set [''a'', ''b'']) (set [''a'', ''c'']) = 2 / 3
   \<and> calculateCapabilityOverlap (Some []) (Some [''a'', ''c'']) = 0.3
   \<and> calculateCapabilityOverlap None (Some [''a'', ''c'']) = 0.3"
proof -
  have i: "set [''a'', ''b''] \<inter> set [''a'', ''c''] = {''a''}" by auto
  have u: "set [''a'', ''b''] \<union> set [''a'', ''c''] = {''a'', ''b'', ''c''}" by auto
  have j: "jaccard (set [''a'', ''b'']) (set [''a'', ''c'']) = 1 / 3"
    unfolding jaccard_def i u by simp
  have c: "complementarity (set [''a'', ''b'']) (set [''a'', ''c'']) = 2 / 3"
    unfolding complementarity_def i u by simp
  have ne: "[''a'', ''b''] \<noteq> [] \<and> [''a'', ''c''] \<noteq> []" by simp
  from C7_capability_overlap [of "[''a'', ''b'']" "[''a'', ''c'']" "Some []" "Some [''a'', ''c'']"]
       C7_capability_overlap [of "[''a'', ''b'']" "[''a'', ''c'']" None "Some [''a'', ''c'']"]
       ne j c
  show ?thesis by simp
qed

section \<open>Finite numbers\<close>

lemma overflow_bound_large: "2 ^ 1020 < overflow_bound"
  by (simp add: overflow_bound_def)

lemma number_of_Finite:
  assumes "\<bar>x\<bar> \<le> 2 ^ 1020"
  shows "number_of x = Finite x"
proof -
  from assms overflow_bound_large have "x < overflow_bound" "- overflow_bound < x"
    by linarith+
  then show ?thesis by (simp add: number_of_def)
qed

lemma number_of_unit:
  assumes "0 \<le> x" and "x \<le> 1"
  shows "number_of x = Finite x"
proof -
  have "(1 :: real) \<le> 2 ^ 1020" by simp
  with assms have "\<bar>x\<bar> \<le> 2 ^ 1020" by linarith
  then show ?thesis by (rule number_of_Finite)
qed

lemma number_of_small [simp]: "number_of 0 = Finite 0" "number_of 1 = Finite 1"
  by (simp_all add: number_of_unit)

lemma exp_1_bound: "exp (1 :: real) \<le> 273 / 100"
proof -
  have "exp (1 / 128 :: real) \<le> 1 + 1 / 128 + (1 / 128)\<^sup>2"
    by (rule exp_bound) simp_all
  then have "exp (1 / 128 :: real) ^ 128 \<le> (1 + 1 / 128 + (1 / 128)\<^sup>2) ^ 128"
    by (intro power_mono) simp_all
  moreover have "exp (1 / 128 :: real) ^ 128 = exp 1"
    using exp_of_nat_mult [of 128 "1 / 128 :: real"] by simp
  moreover have "(1 + 1 / 128 + (1 / 128)\<^sup>2) ^ 128 \<le> (273 / 100 :: real)"
    by (simp add: power2_eq_square power_divide)
  ultimately show ?thesis by linarith
qed

lemma exp_20_bound: "exp (20 :: real) \<le> 2 ^ 29"
proof -
  have "exp (20 :: real) = exp 1 ^ 20"
    using exp_of_nat_mult [of 20 "1 :: real"] by simp
  also have "\<dots> \<le> (273 / 100) ^ 20"
    by (intro power_mono exp_1_bound) simp
  also have "\<dots> \<le> 2 ^ 29" by (simp add: power_divide)
  finally show ?thesis .
qed

lemma exp_680_bound: "exp (680 :: real) \<le> 2 ^ 986"
proof -
  have "exp (680 :: real) = exp 20 ^ 34"
    using exp_of_nat_mult [of 34 "20 :: real"] by simp
  also have "\<dots> \<le> (2 ^ 29) ^ 34"
    by (intro power_mono exp_20_bound) simp
  also have "\<dots> = 2 ^ 986" by (simp add: power_mult [symmetric] del: power_numeral)
  finally show ?thesis .
qed

lemma Math_exp_moderate: "- 680 \<le> x \<Longrightarrow> x \<le> 680 \<Longrightarrow> Math_exp x = Finite (exp x)"
  by (simp add: Math_exp_def)

section \<open>The example agent\<close>

lemma example_hc:
  "calculateHistoricalContinuity (identity_history example_agent) 0 = Finite 1"
  by (simp add: example_agent_def calculateHistoricalContinuity_def
        calculateIdentitySimilarity_def temporalDecayConstant_def Math_exp_def Let_def)

lemma example_correlation: "calculateCorrelation [1 / 2] [1 / 2] = Inr 0"
  by (simp add: calculateCorrelation_def)

lemma example_compatibility:
  "checkComponentCompatibility
     [global_feeling_tone (uev_data example_agent), emotional_motivation (uev_data example_agent),
      rational_deliberation (uev_data example_agent), action_readiness (uev_data example_agent)]
   = Inr 0"
  by (simp add: example_agent_def checkComponentCompatibility_def Object_values_def
        example_correlation)

lemma example_continuity: "checkTemporalContinuity (uev_data example_agent) = Inr 1"
  by (simp add: example_agent_def checkTemporalContinuity_def Object_values_uev_def
        Object_values_def)

lemma example_coherence: "calculateInternalCoherence (broa_data example_agent) = Inr (3 / 5)"
  by (simp add: example_agent_def calculateInternalCoherence_def calculateBeliefConsistency_def
        calculateRuleCoherence_def calculateOntologyAlignment_def Object_values_def)

lemma example_pi:
  "calculatePresentIntegration (uev_data example_agent) (broa_data example_agent) = Inr (21 / 50)"
  by (simp add: calculatePresentIntegration_def calculateTCF_def example_compatibility
        example_continuity example_coherence)

lemma example_lower:
  "toLowerCase ''scholar_growth'' = ''scholar_growth''" "toLowerCase ''scholar'' = ''scholar''"
  by (simp_all add: toLowerCase_def toLowerCase_char_def)

lemma example_pc:
  "calculateProspectiveCoherence (future_projections example_agent)
     (identity_kernel example_agent) = 41 / 50"
  by (simp add: example_agent_def calculateProspectiveCoherence_def
        calculateProjectionAlignment_def example_lower calculateAdaptiveCapacity_def
        calculateGoalDiversity_def split_first_def assessTimelineRealism_def timelineMap_def
        get_def)

lemma example_mcc:
  "calculateMetaConstructorCapacity (self_modification_data example_agent) = 2 / 5"
  by (simp add: example_agent_def calculateMetaConstructorCapacity_def
        assessModificationAbility_def assessCoherenceMaintenance_def)

lemma example_adapt:
  "adaptForCulture example_frameworks (cultural_background example_agent) default_weights
     = Inr (Some \<lparr>alpha = 2 / 5, beta = 1 / 5, gamma = 1 / 5, delta = 1 / 5\<rparr>)"
  by (simp add: adaptForCulture_def property_key_def example_frameworks_def example_table_def
        example_agent_def default_weights_def Object_values_weights_def)

lemma example_atcf:
  "calculateATCF \<lparr>calculator.weights = w\<rparr> example_agent 0 =
     Inr (Some
       \<lparr>total_score =
           max 0 (min 1 (alpha w * 1 + beta w * (21 / 50) + gamma w * (41 / 50)
                         + delta w * (2 / 5))),
         components = \<lparr>HC = 1, PI = 21 / 50, PC = 41 / 50, MCC = 2 / 5\<rparr>,
         weights = w,
         assessment_timestamp = 0,
         score_interpretation =
           interpretATCFScore (alpha w * 1 + beta w * (21 / 50) + gamma w * (41 / 50)
                               + delta w * (2 / 5)),
         cultural_adaptation = None\<rparr>)"
  by (simp add: calculateATCF_def example_hc example_pi example_pc example_mcc Let_def)

lemma example_adapted_call:
  "\<exists>r. calculateCulturallyAdaptedATCF example_frameworks example_agent 0
          \<lparr>calculator.weights = default_weights\<rparr>
        = Returned r \<lparr>calculator.weights = default_weights\<rparr>
      \<and> total_score r = 91 / 125"
  by (simp add: calculateCulturallyAdaptedATCF_def example_adapt example_atcf Let_def)

section \<open>Zero as a missing value\<close>

text \<open>
  C10: a stated value of exactly 0 is treated like a missing one. A coherence-maintenance
  capacity of 0 gives the score 0.5; a stated alignment of 0 is replaced by the computed
  goal-kernel alignment score; a value alignment of 0 is replaced by 0.75.
\<close>

theorem C10_zero_is_absent:
  "(coherence_maintenance_capacity m = Some 0 \<longrightarrow>
      assessCoherenceMaintenance m = 0.5
      \<and> assessCoherenceMaintenance m
          = assessCoherenceMaintenance (m\<lparr>coherence_maintenance_capacity := None\<rparr>))
   \<and> (alignment_with_identity p = Some 0 \<longrightarrow>
        calculateProjectionAlignment p k
          = calculateProjectionAlignment (p\<lparr>alignment_with_identity := None\<rparr>) k
        \<and> (\<forall>gs kern. goals p = Some gs \<and> k = Some kern \<longrightarrow>
              calculateProjectionAlignment p k
                = (alignmentScore gs kern + alignmentScore gs kern) / 2))
   \<and> (authenticity b = Some a \<and> value_alignment a = Some 0 \<longrightarrow>
        calculateInternalCoherence b
          = calculateInternalCoherence (b\<lparr>authenticity := Some (a\<lparr>value_alignment := None\<rparr>)\<rparr>)
        \<and> (\<forall>bc. calculateBeliefConsistency (beliefs b) = Inr bc \<longrightarrow>
              calculateInternalCoherence b
                = Inr ((bc + calculateRuleCoherence (rules b)
                        + calculateOntologyAlignment (ontology b) + 0.75) / 4)))"
proof (intro conjI impI allI)
  assume "coherence_maintenance_capacity m = Some 0"
  then show "assessCoherenceMaintenance m = 0.5"
    and "assessCoherenceMaintenance m
          = assessCoherenceMaintenance (m\<lparr>coherence_maintenance_capacity := None\<rparr>)"
    by (simp_all add: assessCoherenceMaintenance_def)
next
  assume "alignment_with_identity p = Some 0"
  then show "calculateProjectionAlignment p k
          = calculateProjectionAlignment (p\<lparr>alignment_with_identity := None\<rparr>) k"
    by (simp add: calculateProjectionAlignment_def split: option.splits)
next
  fix gs kern
  assume "alignment_with_identity p = Some 0" and "goals p = Some gs \<and> k = Some kern"
  then show "calculateProjectionAlignment p k
                = (alignmentScore gs kern + alignmentScore gs kern) / 2"
    by (simp add: calculateProjectionAlignment_def alignmentScore_def Let_def)
next
  assume "authenticity b = Some a \<and> value_alignment a = Some 0"
  then show "calculateInternalCoherence b
          = calculateInternalCoherence (b\<lparr>authenticity := Some (a\<lparr>value_alignment := None\<rparr>)\<rparr>)"
    by (simp add: calculateInternalCoherence_def split: sum.splits)
next
  fix bc
  assume "authenticity b = Some a \<and> value_alignment a = Some 0"
    and "calculateBeliefConsistency (beliefs b) = Inr bc"
  then show "calculateInternalCoherence b
                = Inr ((bc + calculateRuleCoherence (rules b)
                        + calculateOntologyAlignment (ontology b) + 0.75) / 4)"
    by (simp add: calculateInternalCoherence_def)
qed

theorem C10_zero_is_absent_witness:
  "coherence_maintenance_capacity
     \<lparr>modification_history = None, coherence_maintenance_capacity = Some 0\<rparr> = Some 0
   \<and> assessCoherenceMaintenance
       \<lparr>modification_history = None, coherence_maintenance_capacity = Some 0\<rparr> = 0.5
   \<and> calculateProjectionAlignment
       \<lparr>goals = Some [''scholar_growth'', ''travel''], projections.timeline = ''5_years'',
        alignment_with_identity = Some 0\<rparr> (Some [''scholar''])
     = alignmentScore [''scholar_growth'', ''travel''] [''scholar'']
   \<and> alignmentScore [''scholar_growth'', ''travel''] [''scholar''] = 1 / 2
   \<and> calculateInternalCoherence
       \<lparr>beliefs = None, rules = None, ontology = None,
        authenticity = Some \<lparr>auth_identity_kernel = None, value_alignment = Some 0,
                              self_consistency = 1\<rparr>\<rparr>
     = Inr ((0.5 + 0.5 + 0.5 + 0.75) / 4)"
proof -
  let ?m = "\<lparr>modification_history = None, coherence_maintenance_capacity = Some 0\<rparr>"
  let ?p = "\<lparr>goals = Some [''scholar_growth'', ''travel''], projections.timeline = ''5_years'',
             alignment_with_identity = Some 0\<rparr>"
  let ?a = "\<lparr>auth_identity_kernel = None, value_alignment = Some 0, self_consistency = 1\<rparr>"
  let ?b = "\<lparr>beliefs = None, rules = None, ontology = None, authenticity = Some ?a\<rparr>"
  have m: "coherence_maintenance_capacity ?m = Some 0" by simp
  have p: "alignment_with_identity ?p = Some 0" by simp
  have g: "goals ?p = Some [''scholar_growth'', ''travel''] \<and> Some [''scholar''] = Some [''scholar'']"
    by simp
  have a: "authenticity ?b = Some ?a \<and> value_alignment ?a = Some 0" by simp
  have bc: "calculateBeliefConsistency (beliefs ?b) = Inr 0.5"
    by (simp add: calculateBeliefConsistency_def)
  have s: "alignmentScore [''scholar_growth'', ''travel''] [''scholar''] = 1 / 2"
    by (simp add: alignmentScore_def toLowerCase_def toLowerCase_char_def)
  have rc: "calculateRuleCoherence (rules ?b) = 0.5"
    and oa: "calculateOntologyAlignment (ontology ?b) = 0.5"
    by (simp_all add: calculateRuleCoherence_def calculateOntologyAlignment_def)
  from C10_zero_is_absent [of ?m ?p "Some [''scholar'']" ?b ?a] m p g a bc
  have "assessCoherenceMaintenance ?m = 0.5"
    and "calculateProjectionAlignment ?p (Some [''scholar''])
          = (alignmentScore [''scholar_growth'', ''travel''] [''scholar'']
             + alignmentScore [''scholar_growth'', ''travel''] [''scholar'']) / 2"
    and "calculateInternalCoherence ?b
          = Inr ((0.5 + calculateRuleCoherence (rules ?b)
                  + calculateOntologyAlignment (ontology ?b) + 0.75) / 4)"
    by blast+
  with m s rc oa show ?thesis by simp
qed

section \<open>Missing and empty collections\<close>

lemma empty_beliefs_throw:
  "calculateATCF c empty_beliefs_agent t = Inl TypeError"
proof -
  have u: "uev_data empty_beliefs_agent = uev_data example_agent" by (simp add: empty_beliefs_agent_def)
  have b: "calculateInternalCoherence (broa_data empty_beliefs_agent) = Inl TypeError"
    by (simp add: empty_beliefs_agent_def calculateInternalCoherence_def
          calculateBeliefConsistency_def Object_values_def)
  show ?thesis
    by (simp add: calculateATCF_def calculatePresentIntegration_def calculateTCF_def u
          example_compatibility example_continuity b)
qed

text \<open>
  C4 does not hold of the code: a missing belief object gives the default 0.5, but an empty
  one makes \<^verbatim>\<open>reduce\<close> throw a TypeError in \<^verbatim>\<open>calculateBeliefConsistency\<close>, and so do
  empty present-state components in \<^verbatim>\<open>checkTemporalContinuity\<close>; the exception ends the
  whole of \<^verbatim>\<open>calculateATCF\<close>.
\<close>

theorem C4_empty_beliefs_throw:
  "calculateBeliefConsistency (Some []) = Inl TypeError
   \<and> calculateBeliefConsistency None = Inr 0.5
   \<and> checkTemporalContinuity
        \<lparr>global_feeling_tone = [], emotional_motivation = [], rational_deliberation = [],
         action_readiness = []\<rparr> = Inl TypeError
   \<and> calculateATCF \<lparr>calculator.weights = default_weights\<rparr> empty_beliefs_agent 0
       = Inl TypeError"
  by (simp add: calculateBeliefConsistency_def Object_values_def checkTemporalContinuity_def
        Object_values_uev_def empty_beliefs_throw)

section \<open>The calculator as state\<close>

text \<open>
  C9: when the culturally adapted scoring call returns, the calculator is the one it was
  before the call, and the same call on it returns the same result again.
\<close>

theorem C9_weights_restored:
  "calculateCulturallyAdaptedATCF culturalFrameworks agentData current this = Returned r this'
   \<longrightarrow> this' = this
       \<and> calculateCulturallyAdaptedATCF culturalFrameworks agentData current this'
           = Returned r this'"
proof
  assume h: "calculateCulturallyAdaptedATCF culturalFrameworks agentData current this
               = Returned r this'"
  then have "this' = this"
    by (auto simp add: calculateCulturallyAdaptedATCF_def Let_def
          split: option.splits sum.splits)
  with h show "this' = this
       \<and> calculateCulturallyAdaptedATCF culturalFrameworks agentData current this'
           = Returned r this'"
    by simp
qed

theorem C9_weights_restored_witness:
  "state_after (calculateCulturallyAdaptedATCF example_frameworks example_agent 0
                  \<lparr>calculator.weights = default_weights\<rparr>)
     = Some \<lparr>calculator.weights = default_weights\<rparr>
   \<and> map_option total_score
        (returned (calculateCulturallyAdaptedATCF example_frameworks example_agent 0
                     \<lparr>calculator.weights = default_weights\<rparr>))
     = Some (91 / 125)"
proof -
  let ?c = "\<lparr>calculator.weights = default_weights\<rparr>"
  from example_adapted_call obtain r where
    r: "calculateCulturallyAdaptedATCF example_frameworks example_agent 0 ?c = Returned r ?c"
    and t: "total_score r = 91 / 125"
    by blast
  from C9_weights_restored [of example_frameworks example_agent 0 ?c r ?c] r
  have "calculateCulturallyAdaptedATCF example_frameworks example_agent 0 ?c = Returned r ?c"
    by blast
  with t show ?thesis by simp
qed

text \<open>
  When the scoring throws, the calculator keeps the adapted weights.
\<close>

lemma weights_stay_adapted_after_throw:
  "calculateCulturallyAdaptedATCF example_frameworks empty_beliefs_agent 0
     \<lparr>calculator.weights = default_weights\<rparr>
   = Thrown TypeError
       \<lparr>calculator.weights = \<lparr>alpha = 2 / 5, beta = 1 / 5, gamma = 1 / 5, delta = 1 / 5\<rparr>\<rparr>"
proof -
  have "cultural_background empty_beliefs_agent = cultural_background example_agent"
    by (simp add: empty_beliefs_agent_def)
  then show ?thesis
    by (simp add: calculateCulturallyAdaptedATCF_def example_adapt empty_beliefs_throw)
qed

section \<open>Historical continuity\<close>

lemma kernel_similarity_unit:
  assumes "finite A" and "finite B"
  shows "0 \<le> kernel_similarity A B \<and> kernel_similarity A B \<le> 1"
proof -
  from assms have "card (A \<inter> B) \<le> card (A \<union> B)"
    by (intro card_mono) auto
  then have "real (card (A \<inter> B)) / real (card (A \<union> B)) \<le> 1"
    by (simp add: divide_le_eq)
  then show ?thesis by (simp add: kernel_similarity_def jaccard_def)
qed

lemma calculateIdentitySimilarity_jaccard:
  "calculateIdentitySimilarity k1 k2 = kernel_similarity (kernel_set k1) (kernel_set k2)"
  by (simp add: calculateIdentitySimilarity_def kernel_similarity_def kernel_set_def Let_def
        length_intersection length_union jaccard_def split: option.splits)

lemma calculateIdentitySimilarity_unit:
  "0 \<le> calculateIdentitySimilarity k1 k2 \<and> calculateIdentitySimilarity k1 k2 \<le> 1"
  unfolding calculateIdentitySimilarity_jaccard
  by (rule kernel_similarity_unit) (simp_all add: kernel_set_def split: option.splits)

text \<open>The weight of a recent snapshot is a positive finite number.\<close>

lemma recent_weight:
  assumes "recent t p"
  shows "Math_exp (- ((t - timestamp p) / (1000 * 60 * 60 * 24)) / temporalDecayConstant)
           = Finite (temporalWeight t p)"
    and "0 < temporalWeight t p"
    and "temporalWeight t p \<le> 2 ^ 986"
proof -
  let ?x = "- ((t - timestamp p) / (1000 * 60 * 60 * 24)) / 30"
  from assms have "\<bar>t - timestamp p\<bar> \<le> 20000 * (1000 * 60 * 60 * 24)"
    by (simp add: recent_def)
  then have x: "- 680 \<le> ?x" "?x \<le> 680" by (simp_all add: abs_le_iff field_simps)
  then have "Math_exp ?x = Finite (exp ?x)" by (rule Math_exp_moderate)
  then show "Math_exp (- ((t - timestamp p) / (1000 * 60 * 60 * 24)) / temporalDecayConstant)
           = Finite (temporalWeight t p)"
    by (simp only: temporalWeight_def temporalDecayConstant_def)
  show "0 < temporalWeight t p" by (simp add: temporalWeight_def)
  from x have "exp ?x \<le> exp 680" by (simp only: exp_le_cancel_iff)
  with exp_680_bound show "temporalWeight t p \<le> 2 ^ 986"
    unfolding temporalWeight_def by linarith
qed

text \<open>
  The loop over recent snapshots: both accumulators stay finite and hold the weighted sum
  of the similarities and the sum of the weights.
\<close>

lemma historyLoop_recent:
  assumes "list_all (recent t) h" and "0 \<le> s" and "s \<le> w"
    and "w + real (length h) * 2 ^ 986 \<le> 2 ^ 1020"
  shows "historyLoop k t h (Finite s, Finite w) =
     (Finite (s + (\<Sum>p\<leftarrow>h. temporalWeight t p
                  * calculateIdentitySimilarity k (snapshot_identity_kernel p))),
      Finite (w + (\<Sum>p\<leftarrow>h. temporalWeight t p)))"
  using assms
proof (induction h arbitrary: s w)
  case Nil
  then show ?case by simp
next
  case (Cons p h)
  let ?tw = "temporalWeight t p"
  let ?sim = "calculateIdentitySimilarity k (snapshot_identity_kernel p)"
  from Cons.prems(1) have r: "recent t p" and rs: "list_all (recent t) h" by simp_all
  note tw = recent_weight [OF r]
  have sim: "0 \<le> ?sim" "?sim \<le> 1" using calculateIdentitySimilarity_unit by blast+
  have prod: "0 \<le> ?tw * ?sim" "?tw * ?sim \<le> ?tw"
    using tw(2) sim by (simp_all add: mult_left_le)
  have bound: "w + ?tw + real (length h) * 2 ^ 986 \<le> 2 ^ 1020"
    using Cons.prems(4) tw(3) by (simp add: algebra_simps)
  have len: "0 \<le> real (length h) * (2 ^ 986 :: real)" by simp
  have p: "(2 :: real) ^ 986 \<le> 2 ^ 1020" by simp
  have "\<bar>?tw * ?sim\<bar> \<le> 2 ^ 1020"
    using prod tw(2,3) p by linarith
  then have a: "number_times (Finite ?tw) (Finite ?sim) = Finite (?tw * ?sim)"
    by (simp add: number_of_Finite del: power_numeral)
  have "\<bar>s + ?tw * ?sim\<bar> \<le> 2 ^ 1020"
    using prod Cons.prems(2,3) bound len by linarith
  then have b: "number_plus (Finite s) (Finite (?tw * ?sim)) = Finite (s + ?tw * ?sim)"
    by (simp add: number_of_Finite del: power_numeral)
  have "\<bar>w + ?tw\<bar> \<le> 2 ^ 1020"
    using Cons.prems(2,3) bound len tw(2) by linarith
  then have c: "number_plus (Finite w) (Finite ?tw) = Finite (w + ?tw)"
    by (simp add: number_of_Finite del: power_numeral)
  have "historyLoop k t (p # h) (Finite s, Finite w)
      = historyLoop k t h (Finite (s + ?tw * ?sim), Finite (w + ?tw))"
    by (simp only: historyLoop.simps Let_def tw(1) a b c)
  also have "\<dots> =
     (Finite (s + ?tw * ?sim + (\<Sum>p\<leftarrow>h. temporalWeight t p
                  * calculateIdentitySimilarity k (snapshot_identity_kernel p))),
      Finite (w + ?tw + (\<Sum>p\<leftarrow>h. temporalWeight t p)))"
    using rs prod Cons.prems(2,3) bound by (intro Cons.IH) simp_all
  finally show ?case by (simp add: add.assoc)
qed

lemma sum_temporalWeight_pos:
  "h \<noteq> [] \<Longrightarrow> 0 < (\<Sum>p\<leftarrow>h. temporalWeight t p)"
proof (induction h)
  case Nil
  then show ?case by simp
next
  case (Cons p h)
  have "0 \<le> (\<Sum>p\<leftarrow>h. temporalWeight t p)"
    by (rule sum_list_nonneg) (auto simp: temporalWeight_def)
  moreover have "0 < temporalWeight t p" by (simp add: temporalWeight_def)
  ultimately show ?case by simp
qed

lemma weighted_sum_bounds:
  "0 \<le> (\<Sum>p\<leftarrow>h. temporalWeight t p
             * calculateIdentitySimilarity k (snapshot_identity_kernel p))
   \<and> (\<Sum>p\<leftarrow>h. temporalWeight t p
             * calculateIdentitySimilarity k (snapshot_identity_kernel p))
       \<le> (\<Sum>p\<leftarrow>h. temporalWeight t p)"
proof (induction h)
  case Nil
  then show ?case by simp
next
  case (Cons p h)
  let ?sim = "calculateIdentitySimilarity k (snapshot_identity_kernel p)"
  have "0 < temporalWeight t p" by (simp add: temporalWeight_def)
  moreover have "0 \<le> ?sim" "?sim \<le> 1" using calculateIdentitySimilarity_unit by blast+
  ultimately have "0 \<le> temporalWeight t p * ?sim"
    "temporalWeight t p * ?sim \<le> temporalWeight t p"
    by (simp_all add: mult_left_le)
  with Cons.IH show ?case by simp
qed

text \<open>
  C2, amended: for an empty or missing history the historical-continuity score is 0. For a
  history of fewer than 2^32 snapshots (the bound of an array) whose timestamps lie within
  20000 days of the current time, it is the average, weighted by exp(-days/30), over all
  snapshots of the Jaccard similarity (0 when a kernel is empty or missing) between the
  kernel of the first snapshot of the history and each snapshot's kernel.
\<close>

theorem C2_first_snapshot_is_reference:
  "calculateHistoricalContinuity None currentTime = Finite 0
   \<and> calculateHistoricalContinuity (Some []) currentTime = Finite 0
   \<and> (h \<noteq> [] \<and> length h < 2 ^ 32 \<and> list_all (recent currentTime) h \<longrightarrow>
        calculateHistoricalContinuity (Some h) currentTime
          = Finite (weighted_similarity_average (kernel_set (snapshot_identity_kernel (hd h))) h
                      currentTime))"
proof (intro conjI impI)
  show "calculateHistoricalContinuity None currentTime = Finite 0"
    and "calculateHistoricalContinuity (Some []) currentTime = Finite 0"
    by (simp_all add: calculateHistoricalContinuity_def)
next
  assume hyp: "h \<noteq> [] \<and> length h < 2 ^ 32 \<and> list_all (recent currentTime) h"
  then obtain first rest where h: "h = first # rest" by (cases h) auto
  let ?k = "snapshot_identity_kernel first"
  let ?S = "\<Sum>p\<leftarrow>h. temporalWeight currentTime p
                * calculateIdentitySimilarity ?k (snapshot_identity_kernel p)"
  let ?W = "\<Sum>p\<leftarrow>h. temporalWeight currentTime p"
  from hyp have "real (length h) \<le> 2 ^ 32"
    by (simp add: of_nat_less_numeral_power_cancel_iff less_imp_le)
  then have "real (length h) * 2 ^ 986 \<le> 2 ^ 32 * (2 ^ 986 :: real)"
    by (intro mult_right_mono) simp_all
  also have "\<dots> \<le> 2 ^ 1020" by simp
  finally have len: "0 + real (length h) * 2 ^ 986 \<le> (2 ^ 1020 :: real)" by simp
  from hyp have "historyLoop ?k currentTime h (Finite 0, Finite 0)
      = (Finite (0 + ?S), Finite (0 + ?W))"
    by (intro historyLoop_recent len) simp_all
  then have loop: "historyLoop ?k currentTime h (Finite 0, Finite 0) = (Finite ?S, Finite ?W)"
    by simp
  have pos: "0 < ?W" using hyp by (intro sum_temporalWeight_pos) simp
  have s: "0 \<le> ?S" "?S \<le> ?W" using weighted_sum_bounds by blast+
  with pos have "0 \<le> ?S / ?W" "?S / ?W \<le> 1" by (simp_all add: divide_le_eq)
  then have q: "number_of (?S / ?W) = Finite (?S / ?W)" by (rule number_of_unit)
  have "calculateHistoricalContinuity (Some (first # rest)) currentTime
      = (case historyLoop ?k currentTime h (Finite 0, Finite 0) of
           (totalScore, totalWeight) \<Rightarrow>
             if number_greater totalWeight 0 then number_divide totalScore totalWeight
             else Finite 0)"
    by (simp only: calculateHistoricalContinuity_def h option.case list.case)
  also have "\<dots> = Finite (?S / ?W)"
    using pos q by (simp only: loop prod.case number_greater.simps number_divide.simps) simp
  finally show "calculateHistoricalContinuity (Some h) currentTime
          = Finite (weighted_similarity_average (kernel_set (snapshot_identity_kernel (hd h))) h
                      currentTime)"
    by (simp add: weighted_similarity_average_def calculateIdentitySimilarity_jaccard h)
qed

theorem C2_first_snapshot_is_reference_witness:
  "[\<lparr>timestamp = 0, snapshot_identity_kernel = Some [''teacher'', ''parent'']\<rparr>,
    \<lparr>timestamp = - 2592000000, snapshot_identity_kernel = Some [''teacher'']\<rparr>] \<noteq> []
   \<and> length [\<lparr>timestamp = 0, snapshot_identity_kernel = Some [''teacher'', ''parent'']\<rparr>,
              \<lparr>timestamp = - 2592000000, snapshot_identity_kernel = Some [''teacher'']\<rparr>]
       < 2 ^ 32
   \<and> list_all (recent 0)
        [\<lparr>timestamp = 0, snapshot_identity_kernel = Some [''teacher'', ''parent'']\<rparr>,
         \<lparr>timestamp = - 2592000000, snapshot_identity_kernel = Some [''teacher'']\<rparr>]
   \<and> calculateHistoricalContinuity
       (Some [\<lparr>timestamp = 0, snapshot_identity_kernel = Some [''teacher'', ''parent'']\<rparr>,
              \<lparr>timestamp = - 2592000000, snapshot_identity_kernel = Some [''teacher'']\<rparr>]) 0
     = Finite ((1 + exp (- 1) * (1 / 2)) / (1 + exp (- 1)))"
proof -
  let ?h = "[\<lparr>timestamp = 0, snapshot_identity_kernel = Some [''teacher'', ''parent'']\<rparr>,
             \<lparr>timestamp = - 2592000000, snapshot_identity_kernel = Some [''teacher'']\<rparr>]"
  have hyp: "?h \<noteq> [] \<and> length ?h < 2 ^ 32 \<and> list_all (recent 0) ?h"
    by (simp add: recent_def)
  have i: "{''teacher'', ''parent''} \<inter> {''teacher''} = {''teacher''}" by auto
  have u: "{''teacher'', ''parent''} \<union> {''teacher''} = {''teacher'', ''parent''}" by auto
  have "weighted_similarity_average (kernel_set (snapshot_identity_kernel (hd ?h))) ?h 0
      = (1 + exp (- 1) * (1 / 2)) / (1 + exp (- 1))"
    by (simp add: weighted_similarity_average_def kernel_similarity_def kernel_set_def
          jaccard_def temporalWeight_def i u)
  with C2_first_snapshot_is_reference [of 0 ?h] hyp show ?thesis by simp
qed

lemma drifted_hc:
  "calculateHistoricalContinuity (identity_history drifted_agent) 0
     = Finite (exp (- 1) / (exp (- 1) + 1))"
proof -
  let ?p = "\<lparr>timestamp = - 2592000000, snapshot_identity_kernel = Some [''teacher'']\<rparr>"
  let ?q = "\<lparr>timestamp = 0, snapshot_identity_kernel = Some [''scholar'']\<rparr>"
  have w: "temporalWeight 0 ?p = exp (- 1)" "temporalWeight 0 ?q = 1"
    by (simp_all add: temporalWeight_def)
  have s: "calculateIdentitySimilarity (Some [''teacher'']) (Some [''teacher'']) = 1"
    "calculateIdentitySimilarity (Some [''teacher'']) (Some [''scholar'']) = 0"
    by (simp_all add: calculateIdentitySimilarity_def)
  have "historyLoop (Some [''teacher'']) 0 [?p, ?q] (Finite 0, Finite 0)
      = (Finite (0 + (\<Sum>p\<leftarrow>[?p, ?q]. temporalWeight 0 p
                  * calculateIdentitySimilarity (Some [''teacher'']) (snapshot_identity_kernel p))),
         Finite (0 + (\<Sum>p\<leftarrow>[?p, ?q]. temporalWeight 0 p)))"
    by (rule historyLoop_recent) (simp_all add: recent_def)
  then have loop: "historyLoop (Some [''teacher'']) 0 [?p, ?q] (Finite 0, Finite 0)
      = (Finite (exp (- 1)), Finite (exp (- 1) + 1))"
    by (simp add: w s del: historyLoop.simps)
  have pos: "0 < exp (- 1 :: real) + 1" by (simp add: add_pos_pos)
  have "0 \<le> exp (- 1 :: real) / (exp (- 1) + 1)" using pos by simp
  moreover have "exp (- 1 :: real) / (exp (- 1) + 1) \<le> 1" using pos by (simp add: divide_le_eq)
  ultimately have q: "number_of (exp (- 1 :: real) / (exp (- 1) + 1))
      = Finite (exp (- 1) / (exp (- 1) + 1))"
    by (rule number_of_unit)
  have "calculateHistoricalContinuity (identity_history drifted_agent) 0
      = (case historyLoop (Some [''teacher'']) 0 [?p, ?q] (Finite 0, Finite 0) of
           (totalScore, totalWeight) \<Rightarrow>
             if number_greater totalWeight 0 then number_divide totalScore totalWeight
             else Finite 0)"
    by (simp add: calculateHistoricalContinuity_def drifted_agent_def del: historyLoop.simps)
  also have "\<dots> = Finite (exp (- 1) / (exp (- 1) + 1))"
    using pos q by (simp only: loop prod.case number_greater.simps number_divide.simps) simp
  finally show ?thesis .
qed

lemma drifted_claimed:
  "claimed_historical_continuity drifted_agent 0 = 1 / (exp (- 1) + 1)"
  by (simp add: claimed_historical_continuity_def drifted_agent_def example_agent_def
        weighted_similarity_average_def kernel_similarity_def kernel_set_def jaccard_def
        temporalWeight_def)

text \<open>
  C2, as stated, fails: the reference kernel is the one of the first snapshot, whatever the
  agent's present kernel is. The agent below has a snapshot of thirty days ago with kernel
  teacher, listed first, and a snapshot of now with kernel scholar, which is also its own
  identity kernel: the code returns exp(-1) / (exp(-1) + 1), the claimed average is
  1 / (exp(-1) + 1).
\<close>

theorem C2_counterexample:
  "calculateHistoricalContinuity (identity_history drifted_agent) 0
     = Finite (exp (- 1) / (exp (- 1) + 1))
   \<and> claimed_historical_continuity drifted_agent 0 = 1 / (exp (- 1) + 1)
   \<and> calculateHistoricalContinuity (identity_history drifted_agent) 0
       \<noteq> Finite (claimed_historical_continuity drifted_agent 0)"
proof -
  have pos: "0 < exp (- 1 :: real) + 1"
    by (simp add: add_pos_pos)
  have "exp (- 1 :: real) \<noteq> 1" by simp
  with pos have "exp (- 1 :: real) / (exp (- 1) + 1) \<noteq> 1 / (exp (- 1) + 1)"
    by (simp add: divide_eq_eq)
  then show ?thesis by (simp only: drifted_hc drifted_claimed) simp
qed

text \<open>
  Outside that range the score is not the weighted average. The weight of a snapshot that
  is 2 * 10^12 milliseconds (63 years) old underflows to 0, the guard on the sum of the
  weights applies and the score is 0, where the average is 1. The weight of a snapshot
  that lies as far in the future overflows, and the score is not a number.
\<close>

lemma old_snapshot_underflows:
  "calculateHistoricalContinuity
     (Some [\<lparr>timestamp = - 2000000000000, snapshot_identity_kernel = Some [''teacher'']\<rparr>]) 0
   = Finite 0
   \<and> weighted_similarity_average {''teacher''}
        [\<lparr>timestamp = - 2000000000000, snapshot_identity_kernel = Some [''teacher'']\<rparr>] 0 = 1"
  by (simp add: calculateHistoricalContinuity_def Math_exp_def temporalDecayConstant_def
        calculateIdentitySimilarity_def Let_def weighted_similarity_average_def
        kernel_similarity_def kernel_set_def jaccard_def temporalWeight_def)

lemma future_snapshot_overflows:
  "calculateHistoricalContinuity
     (Some [\<lparr>timestamp = 2000000000000, snapshot_identity_kernel = Some [''teacher'']\<rparr>]) 0
   = NaN"
  by (simp add: calculateHistoricalContinuity_def Math_exp_def temporalDecayConstant_def
        calculateIdentitySimilarity_def Let_def)

section \<open>Present integration\<close>



















section \<open>Two agents with a disputed belief\<close>

lemma CoordinationAssessment_new_example: "CoordinationAssessment_new = Inr example_assessment"
  by (simp add: CoordinationAssessment_new_def ATCFCalculator_new_default example_assessment_def)

lemma assessCrossAgentCoordination_returns:
  assumes "calculateCulturallyAdaptedATCF cfs a1 t1 (atcfCalculator st) = Returned r1 c1"
    and "calculateCulturallyAdaptedATCF cfs a2 t2 c1 = Returned r2 c2"
    and "calculatePRFCompatibility (broa_data a1) (broa_data a2) = Some p"
  shows "\<exists>cr. assessCrossAgentCoordination cfs t1 t2 a1 a2 st
               = Returned cr (st\<lparr>atcfCalculator := c2\<rparr>)
          \<and> coordination_potential cr =
              max 0 (min 1 (0.3 * min (total_score r1) (total_score r2) + 0.25 * p
                + 0.25 * calculateCapabilityOverlap
                           (Some (case capabilities a1 of None \<Rightarrow> [] | Some cs \<Rightarrow> cs))
                           (Some (case capabilities a2 of None \<Rightarrow> [] | Some cs \<Rightarrow> cs))
                + 0.2 * calculateCulturalCoordination (cultural_background a1)
                          (cultural_background a2)))
          \<and> prf_compatibility cr = p
          \<and> capability_overlap cr =
              calculateCapabilityOverlap
                (Some (case capabilities a1 of None \<Rightarrow> [] | Some cs \<Rightarrow> cs))
                (Some (case capabilities a2 of None \<Rightarrow> [] | Some cs \<Rightarrow> cs))
          \<and> cultural_coordination cr =
              calculateCulturalCoordination (cultural_background a1) (cultural_background a2)"
  using assms by (simp add: assessCrossAgentCoordination_def Let_def)

lemma outlier_coherence: "calculateInternalCoherence (broa_data outlier_agent) = Inr (3 / 5)"
  by (simp add: outlier_agent_def example_agent_def calculateInternalCoherence_def
        calculateBeliefConsistency_def calculateRuleCoherence_def calculateOntologyAlignment_def
        Object_values_def)

lemma outlier_pi:
  "calculatePresentIntegration (uev_data outlier_agent) (broa_data outlier_agent) = Inr (21 / 50)"
proof -
  have u: "uev_data outlier_agent = uev_data example_agent" by (simp add: outlier_agent_def)
  show ?thesis
    by (simp add: calculatePresentIntegration_def calculateTCF_def u example_compatibility
          example_continuity outlier_coherence)
qed

lemma outlier_adapted_call:
  "\<exists>r. calculateCulturallyAdaptedATCF example_frameworks outlier_agent 0
          \<lparr>calculator.weights = default_weights\<rparr>
        = Returned r \<lparr>calculator.weights = default_weights\<rparr>
      \<and> total_score r = 91 / 125"
proof -
  have same: "cultural_background outlier_agent = cultural_background example_agent"
    "identity_history outlier_agent = identity_history example_agent"
    "future_projections outlier_agent = future_projections example_agent"
    "identity_kernel outlier_agent = identity_kernel example_agent"
    "self_modification_data outlier_agent = self_modification_data example_agent"
    by (simp_all add: outlier_agent_def)
  show ?thesis
    by (simp add: calculateCulturallyAdaptedATCF_def calculateATCF_def same example_adapt
          example_hc outlier_pi example_pc example_mcc Let_def)
qed

lemma outlier_prf:
  "calculatePRFCompatibility (broa_data outlier_agent) (broa_data example_agent) = Some (- 1 / 3)"
  by (simp add: calculatePRFCompatibility_def calculateBeliefCompatibility_def
        calculateRuleCompatibility_def calculateOntologyCompatibility_def
        calculateAuthenticityCompatibility_def calculateIdentityKernelOverlap_def
        outlier_agent_def example_agent_def Object_keys_def get_def Let_def)

lemma variant_adapted_call:
  assumes "cultural_background a = cultural_background example_agent"
    and "identity_history a = identity_history example_agent"
    and "uev_data a = uev_data example_agent"
    and "future_projections a = future_projections example_agent"
    and "identity_kernel a = identity_kernel example_agent"
    and "self_modification_data a = self_modification_data example_agent"
    and "calculateInternalCoherence (broa_data a) = Inr ic"
  shows "\<exists>r. calculateCulturallyAdaptedATCF example_frameworks a 0
            \<lparr>calculator.weights = default_weights\<rparr>
          = Returned r \<lparr>calculator.weights = default_weights\<rparr>"
  by (simp add: calculateCulturallyAdaptedATCF_def calculateATCF_def assms example_adapt
        example_hc calculatePresentIntegration_def calculateTCF_def example_compatibility
        example_continuity Let_def)

lemma kindred_adapted_call:
  "\<exists>r. calculateCulturallyAdaptedATCF example_frameworks kindred_agent 0
          \<lparr>calculator.weights = default_weights\<rparr>
        = Returned r \<lparr>calculator.weights = default_weights\<rparr>"
proof (rule variant_adapted_call)
  show "calculateInternalCoherence (broa_data kindred_agent) = Inr (3 / 5)"
    by (simp add: kindred_agent_def example_agent_def calculateInternalCoherence_def
          calculateBeliefConsistency_def calculateRuleCoherence_def
          calculateOntologyAlignment_def Object_values_def)
qed (simp_all add: kindred_agent_def)

lemma fervent_adapted_call:
  "\<exists>r. calculateCulturallyAdaptedATCF example_frameworks fervent_agent 0
          \<lparr>calculator.weights = default_weights\<rparr>
        = Returned r \<lparr>calculator.weights = default_weights\<rparr>"
proof (rule variant_adapted_call)
  show "calculateInternalCoherence (broa_data fervent_agent) = Inr (3 / 5)"
    by (simp add: fervent_agent_def kindred_agent_def example_agent_def
          calculateInternalCoherence_def calculateBeliefConsistency_def
          calculateRuleCoherence_def calculateOntologyAlignment_def Object_values_def)
qed (simp_all add: fervent_agent_def kindred_agent_def)

lemma unaligned_adapted_call:
  "\<exists>r. calculateCulturallyAdaptedATCF example_frameworks unaligned_agent 0
          \<lparr>calculator.weights = default_weights\<rparr>
        = Returned r \<lparr>calculator.weights = default_weights\<rparr>"
proof (rule variant_adapted_call)
  show "calculateInternalCoherence (broa_data unaligned_agent) = Inr (53 / 80)"
    by (simp add: unaligned_agent_def example_agent_def calculateInternalCoherence_def
          calculateBeliefConsistency_def calculateRuleCoherence_def
          calculateOntologyAlignment_def Object_values_def)
qed (simp_all add: unaligned_agent_def)

lemma fervent_prf:
  "calculatePRFCompatibility (broa_data fervent_agent) (broa_data kindred_agent)
     = Some (- 1 / 4)"
  by (simp add: calculatePRFCompatibility_def calculateBeliefCompatibility_def
        calculateRuleCompatibility_def calculateOntologyCompatibility_def
        calculateAuthenticityCompatibility_def calculateIdentityKernelOverlap_def
        fervent_agent_def kindred_agent_def example_agent_def Object_keys_def get_def Let_def)

lemma unaligned_prf:
  "calculatePRFCompatibility (broa_data unaligned_agent) (broa_data example_agent) = None"
  by (simp add: calculatePRFCompatibility_def calculateBeliefCompatibility_def
        calculateAuthenticityCompatibility_def unaligned_agent_def example_agent_def
        Object_keys_def get_def Let_def)

section \<open>Scores outside the unit interval\<close>

text \<open>
  C1 does not hold of the code: \<^verbatim>\<open>assessCrossAgentCoordination\<close> clamps the coordination
  potential and returns the PRF compatibility as it was computed. For two agents whose
  strengths of the shared belief are 4.5 and 0.5, with no rules and no ontology and with
  equal authenticity records, it is (-3 + 0.5 + 0.5 + 1) / 4 = -1/4. When an agent states no
  value alignment, the difference of the two alignments is not a number, and neither are
  the PRF compatibility and the coordination potential that are returned.
\<close>

theorem C1_prf_not_clamped:
  "map_option prf_compatibility
     (returned (assessCrossAgentCoordination example_frameworks 0 0 fervent_agent kindred_agent
                  example_assessment))
     = Some (- 1 / 4)
   \<and> \<not> in_unit (- 1 / 4)
   \<and> calculatePRFCompatibility (broa_data unaligned_agent) (broa_data example_agent) = None
   \<and> assessCrossAgentCoordination example_frameworks 0 0 unaligned_agent example_agent
        example_assessment = NonFinite"
proof -
  from fervent_adapted_call obtain r1 where
    r1: "calculateCulturallyAdaptedATCF example_frameworks fervent_agent 0
           (atcfCalculator example_assessment)
         = Returned r1 \<lparr>calculator.weights = default_weights\<rparr>"
    by (auto simp add: example_assessment_def)
  from kindred_adapted_call obtain r2 where
    r2: "calculateCulturallyAdaptedATCF example_frameworks kindred_agent 0
           \<lparr>calculator.weights = default_weights\<rparr>
         = Returned r2 \<lparr>calculator.weights = default_weights\<rparr>"
    by auto
  from assessCrossAgentCoordination_returns [OF r1 r2 fervent_prf]
  have a: "map_option prf_compatibility
     (returned (assessCrossAgentCoordination example_frameworks 0 0 fervent_agent kindred_agent
                  example_assessment))
     = Some (- 1 / 4)"
    by auto
  from unaligned_adapted_call obtain r3 where
    r3: "calculateCulturallyAdaptedATCF example_frameworks unaligned_agent 0
           (atcfCalculator example_assessment)
         = Returned r3 \<lparr>calculator.weights = default_weights\<rparr>"
    by (auto simp add: example_assessment_def)
  from example_adapted_call obtain r4 where
    r4: "calculateCulturallyAdaptedATCF example_frameworks example_agent 0
           \<lparr>calculator.weights = default_weights\<rparr>
         = Returned r4 \<lparr>calculator.weights = default_weights\<rparr>"
    by auto
  have b: "assessCrossAgentCoordination example_frameworks 0 0 unaligned_agent example_agent
        example_assessment = NonFinite"
    by (simp add: assessCrossAgentCoordination_def r3 r4 unaligned_prf)
  from a b show ?thesis by (simp add: unaligned_prf in_unit_def)
qed

section \<open>Intervention strategies\<close>

lemma sort_insert_insort_key:
  "sort_insert (\<lambda>a b. f b - f a) x ys = insort_key (\<lambda>s. - f s) x ys"
  by (induction ys) auto

lemma Array_sort_sort_key:
  "Array_sort (\<lambda>a b. f b - f a) xs = sort_key (\<lambda>s. - f s) xs"
  by (induction xs) (simp_all add: Array_sort_def sort_key_def sort_insert_insort_key)

lemma Array_sort_descending:
  "sorted_wrt (\<lambda>a b. f a \<ge> f b) (Array_sort (\<lambda>a b. f b - f a) xs)"
proof -
  have "sorted (map (\<lambda>s. - f s) (sort_key (\<lambda>s. - f s) xs))"
    by (rule sorted_sort_key)
  then show ?thesis
    by (simp add: Array_sort_sort_key sorted_map)
qed

lemma Array_sort_stable:
  "filter (\<lambda>s. f s = k) (Array_sort (\<lambda>a b. f b - f a) xs) = filter (\<lambda>s. f s = k) xs"
proof -
  have "filter (\<lambda>s. - f s = - k) (sort_key (\<lambda>s. - f s) xs) = filter (\<lambda>s. - f s = - k) xs"
    by (rule sort_key_stable)
  then show ?thesis by (simp add: Array_sort_sort_key)
qed

lemma priorityOrder_inj: "priorityOrder p = priorityOrder q \<longleftrightarrow> p = q"
  by (cases p; cases q) (simp_all add: priorityOrder_def)

lemma head_is_comprehensive:
  assumes "coordinationPotential < 0.5"
  shows "\<exists>rest. identifyInterventionStrategies coordinationPotential pc co cc =
     \<lparr>type = ''comprehensive_coordination'', priority = critical,
      strategy = ''Multi-modal coordination enhancement program including ATCF therapy'',
      timeline = ''8-12 weeks'', expected_improvement = 0.4\<rparr> # rest"
  using assms
  by (simp add: identifyInterventionStrategies_def pushedStrategies_def Array_sort_def
        priorityOrder_def Let_def)

lemma assessCrossAgentCoordination_strategies:
  assumes "assessCrossAgentCoordination cfs t1 t2 a1 a2 st = Returned cr st'"
  shows "\<exists>raw. coordination_potential cr = max 0 (min 1 raw)
           \<and> intervention_strategies cr =
               identifyInterventionStrategies raw (prf_compatibility cr) (capability_overlap cr)
                 (cultural_coordination cr)"
  using assms
  by (auto simp add: assessCrossAgentCoordination_def Let_def
        split: outcome.splits option.splits)

lemma outlier_strategies:
  "\<exists>cr. assessCrossAgentCoordination example_frameworks 0 0 outlier_agent example_agent
          example_assessment = Returned cr example_assessment
      \<and> coordination_potential cr = 2963 / 7500
      \<and> map type (intervention_strategies cr)
          = [''comprehensive_coordination'', ''prf_alignment'', ''capability_development'']"
proof -
  from outlier_adapted_call obtain r1 where
    r1: "calculateCulturallyAdaptedATCF example_frameworks outlier_agent 0
           \<lparr>calculator.weights = default_weights\<rparr>
         = Returned r1 \<lparr>calculator.weights = default_weights\<rparr>"
    and t1: "total_score r1 = 91 / 125"
    by auto
  from example_adapted_call obtain r2 where
    r2: "calculateCulturallyAdaptedATCF example_frameworks example_agent 0
           \<lparr>calculator.weights = default_weights\<rparr>
         = Returned r2 \<lparr>calculator.weights = default_weights\<rparr>"
    and t2: "total_score r2 = 91 / 125"
    by auto
  have cap: "calculateCapabilityOverlap
     (Some (case capabilities outlier_agent of None \<Rightarrow> [] | Some cs \<Rightarrow> cs))
     (Some (case capabilities example_agent of None \<Rightarrow> [] | Some cs \<Rightarrow> cs)) = 2 / 5"
    by (simp add: calculateCapabilityOverlap_def outlier_agent_def example_agent_def)
  have cul: "calculateCulturalCoordination (cultural_background outlier_agent)
     (cultural_background example_agent) = 4 / 5"
    by (simp add: calculateCulturalCoordination_def outlier_agent_def example_agent_def)
  show ?thesis
    by (simp add: assessCrossAgentCoordination_def example_assessment_def r1 r2 t1 t2
          outlier_prf cap cul Let_def identifyInterventionStrategies_def pushedStrategies_def
          Array_sort_def priorityOrder_def)
qed

text \<open>
  C8: when the composite potential is below 0.5, the first returned strategy is the
  comprehensive one, of priority critical; the returned list is in descending order of
  priority rank (critical, high, medium, low), and strategies of equal priority keep the
  order in which they were pushed. The same holds of the strategies in the result of an
  assessment, whose returned potential is the clamped composite.
\<close>

theorem C8_intervention_strategies:
  "(coordinationPotential < 0.5 \<longrightarrow>
      identifyInterventionStrategies coordinationPotential pc co cc \<noteq> []
      \<and> type (hd (identifyInterventionStrategies coordinationPotential pc co cc))
          = ''comprehensive_coordination''
      \<and> priority (hd (identifyInterventionStrategies coordinationPotential pc co cc))
          = critical)
   \<and> sorted_wrt (\<lambda>a b. priorityOrder (priority a) \<ge> priorityOrder (priority b))
        (identifyInterventionStrategies coordinationPotential pc co cc)
   \<and> (\<forall>p. filter (\<lambda>s. priority s = p)
              (identifyInterventionStrategies coordinationPotential pc co cc)
          = filter (\<lambda>s. priority s = p)
              (pushedStrategies coordinationPotential pc co cc))
   \<and> priorityOrder critical > priorityOrder high
   \<and> priorityOrder high > priorityOrder medium
   \<and> priorityOrder medium > priorityOrder low
   \<and> (assessCrossAgentCoordination cfs t1 t2 a1 a2 st = Returned cr st' \<longrightarrow>
        sorted_wrt (\<lambda>a b. priorityOrder (priority a) \<ge> priorityOrder (priority b))
          (intervention_strategies cr)
        \<and> (coordination_potential cr < 0.5 \<longrightarrow>
             intervention_strategies cr \<noteq> []
             \<and> type (hd (intervention_strategies cr)) = ''comprehensive_coordination''
             \<and> priority (hd (intervention_strategies cr)) = critical))"
proof (intro conjI impI allI)
  assume lt: "coordinationPotential < 0.5"
  from head_is_comprehensive [OF lt, of pc co cc]
  obtain rest where r: "identifyInterventionStrategies coordinationPotential pc co cc =
     \<lparr>type = ''comprehensive_coordination'', priority = critical,
      strategy = ''Multi-modal coordination enhancement program including ATCF therapy'',
      timeline = ''8-12 weeks'', expected_improvement = 0.4\<rparr> # rest"
    by blast
  show "identifyInterventionStrategies coordinationPotential pc co cc \<noteq> []"
    and "type (hd (identifyInterventionStrategies coordinationPotential pc co cc))
          = ''comprehensive_coordination''"
    and "priority (hd (identifyInterventionStrategies coordinationPotential pc co cc))
          = critical"
    by (simp_all add: r)
next
  show "sorted_wrt (\<lambda>a b. priorityOrder (priority a) \<ge> priorityOrder (priority b))
        (identifyInterventionStrategies coordinationPotential pc co cc)"
    unfolding identifyInterventionStrategies_def
    by (rule Array_sort_descending [of "\<lambda>s. priorityOrder (priority s)"])
next
  fix p
  have "filter (\<lambda>s. priorityOrder (priority s) = priorityOrder p)
          (identifyInterventionStrategies coordinationPotential pc co cc)
        = filter (\<lambda>s. priorityOrder (priority s) = priorityOrder p)
          (pushedStrategies coordinationPotential pc co cc)"
    unfolding identifyInterventionStrategies_def
    by (rule Array_sort_stable [of "\<lambda>s. priorityOrder (priority s)"])
  then show "filter (\<lambda>s. priority s = p)
              (identifyInterventionStrategies coordinationPotential pc co cc)
          = filter (\<lambda>s. priority s = p)
              (pushedStrategies coordinationPotential pc co cc)"
    by (simp add: priorityOrder_inj)
next
  assume ret: "assessCrossAgentCoordination cfs t1 t2 a1 a2 st = Returned cr st'"
  from assessCrossAgentCoordination_strategies [OF ret] obtain raw where
    cp: "coordination_potential cr = max 0 (min 1 raw)"
    and strat: "intervention_strategies cr =
               identifyInterventionStrategies raw (prf_compatibility cr) (capability_overlap cr)
                 (cultural_coordination cr)"
    by blast
  show "sorted_wrt (\<lambda>a b. priorityOrder (priority a) \<ge> priorityOrder (priority b))
          (intervention_strategies cr)"
    unfolding strat identifyInterventionStrategies_def
    by (rule Array_sort_descending [of "\<lambda>s. priorityOrder (priority s)"])
  assume "coordination_potential cr < 0.5"
  with cp have lt: "raw < 0.5" by (simp add: max_def min_def split: if_splits)
  from head_is_comprehensive [OF lt, of "prf_compatibility cr" "capability_overlap cr"
         "cultural_coordination cr"]
  obtain rest where "intervention_strategies cr =
     \<lparr>type = ''comprehensive_coordination'', priority = critical,
      strategy = ''Multi-modal coordination enhancement program including ATCF therapy'',
      timeline = ''8-12 weeks'', expected_improvement = 0.4\<rparr> # rest"
    unfolding strat by blast
  then show "intervention_strategies cr \<noteq> []"
    and "type (hd (intervention_strategies cr)) = ''comprehensive_coordination''"
    and "priority (hd (intervention_strategies cr)) = critical"
    by simp_all
qed (simp_all add: priorityOrder_def)

theorem C8_intervention_strategies_witness:
  "(0.4 :: real) < 0.5
   \<and> map type (identifyInterventionStrategies 0.4 0.5 0.4 0.5)
       = [''comprehensive_coordination'', ''prf_alignment'', ''cultural_bridging'',
          ''capability_development'']
   \<and> map priority (identifyInterventionStrategies 0.4 0.5 0.4 0.5)
       = [critical, high, high, medium]
   \<and> map type (pushedStrategies 0.4 0.5 0.4 0.5)
       = [''prf_alignment'', ''capability_development'', ''cultural_bridging'',
          ''comprehensive_coordination'']
   \<and> type (hd (identifyInterventionStrategies 0.4 0.5 0.4 0.5)) = ''comprehensive_coordination''
   \<and> map_option coordination_potential
        (returned (assessCrossAgentCoordination example_frameworks 0 0 outlier_agent
                     example_agent example_assessment)) = Some (2963 / 7500)
   \<and> (2963 / 7500 :: real) < 0.5
   \<and> map_option (\<lambda>cr. map type (intervention_strategies cr))
        (returned (assessCrossAgentCoordination example_frameworks 0 0 outlier_agent
                     example_agent example_assessment))
      = Some [''comprehensive_coordination'', ''prf_alignment'', ''capability_development'']"
proof -
  have lt: "(0.4 :: real) < 0.5" by simp
  have a: "map type (identifyInterventionStrategies 0.4 0.5 0.4 0.5)
       = [''comprehensive_coordination'', ''prf_alignment'', ''cultural_bridging'',
          ''capability_development'']"
    and b: "map priority (identifyInterventionStrategies 0.4 0.5 0.4 0.5)
       = [critical, high, high, medium]"
    and c: "map type (pushedStrategies 0.4 0.5 0.4 0.5)
       = [''prf_alignment'', ''capability_development'', ''cultural_bridging'',
          ''comprehensive_coordination'']"
    by (simp_all add: identifyInterventionStrategies_def pushedStrategies_def Array_sort_def
        priorityOrder_def Let_def)
  from outlier_strategies obtain cr where
    cr: "assessCrossAgentCoordination example_frameworks 0 0 outlier_agent example_agent
          example_assessment = Returned cr example_assessment"
    and cp: "coordination_potential cr = 2963 / 7500"
    and ty: "map type (intervention_strategies cr)
          = [''comprehensive_coordination'', ''prf_alignment'', ''capability_development'']"
    by (elim exE conjE) (rule that)
  have low: "coordination_potential cr < 0.5" by (simp add: cp)
  from C8_intervention_strategies
         [of "0.4" "0.5" "0.4" "0.5" example_frameworks 0 0 outlier_agent example_agent
             example_assessment cr example_assessment]
       lt cr low
  have h: "type (hd (identifyInterventionStrategies 0.4 0.5 0.4 0.5))
             = ''comprehensive_coordination''"
    and "type (hd (intervention_strategies cr)) = ''comprehensive_coordination''"
    by blast+
  have "map_option coordination_potential
        (returned (assessCrossAgentCoordination example_frameworks 0 0 outlier_agent
                     example_agent example_assessment)) = Some (2963 / 7500)"
    by (simp add: cr cp)
  moreover have "map_option (\<lambda>cr. map type (intervention_strategies cr))
        (returned (assessCrossAgentCoordination example_frameworks 0 0 outlier_agent
                     example_agent example_assessment))
      = Some [''comprehensive_coordination'', ''prf_alignment'', ''capability_development'']"
    by (simp add: cr ty)
  moreover have "(2963 / 7500 :: real) < 0.5" by simp
  ultimately show ?thesis using lt a b c h by blast
qed

end
